theory Spec2Isabelle
  imports Main
begin

section \<open>Values, exceptions and the environment\<close>

text \<open>
  JSON values as Python holds them after decoding. Floating-point numbers are not
  modelled.
\<close>

datatype val =
    VNone
  | VBool bool
  | VInt int
  | VStr string
  | VList "val list"
  | VObj "(string \<times> val) list"

text \<open>The dict that \<open>receive_json\<close> returns, and that is splatted into the models.\<close>

type_synonym data = "string \<Rightarrow> val option"

text \<open>
  Exceptions, by the classes the handlers tell apart. \<open>JSONDecodeError\<close> is a subclass
  of \<open>ValueError\<close> in Python; the handler tests for it first. \<open>OtherException\<close> is any
  other subclass of \<open>Exception\<close> (\<open>TypeError\<close>, \<open>RuntimeError\<close>, ...). The second
  component is \<open>str(error)\<close>.
\<close>

datatype exc_class =
    JSONDecodeError
  | ValueError
  | ConnectionError
  | WebSocketDisconnect
  | OtherException

datatype exc = Exc exc_class string

fun exc_cls :: "exc \<Rightarrow> exc_class" where
  "exc_cls (Exc c m) = c"

fun exc_str :: "exc \<Rightarrow> string" where
  "exc_str (Exc c m) = m"

text \<open>A call of an external collaborator: the function's name and its arguments.\<close>

datatype call = Call string "val list"

text \<open>
  The collaborators that are not part of the sources, as parameters:
  \<^item> \<open>secret_api_key\<close>: \<open>settings.get_secret(SECRET_API_KEY)\<close>;
  \<^item> \<open>invalid\<close>: whether the constructor of the named model rejects the dict, and the
    text of the \<open>ValueError\<close> it raises then;
  \<^item> \<open>raises\<close>: whether an external call raises, and what;
  \<^item> \<open>returns\<close>: what an external call returns when it does not raise;
  \<^item> \<open>TABLE_MAP\<close>: \<open>TABLE_MAP.get(module)\<close>, \<open>VNone\<close> when the key is absent;
  \<^item> \<open>int_of_str\<close>: Python's \<open>int\<close> on a string, \<open>None\<close> when it raises.
\<close>

record env =
  secret_api_key :: string
  invalid :: "string \<Rightarrow> data \<Rightarrow> string option"
  raises :: "call \<Rightarrow> exc option"
  returns :: "call \<Rightarrow> val"
  TABLE_MAP :: "val \<Rightarrow> val"
  int_of_str :: "string \<Rightarrow> int option"

section \<open>Constants of the wire vocabulary\<close>

text \<open>
  Modelled from the spec: the constants of \<open>systembridgeshared.const\<close> are imported by
  the sources but defined outside them. The keys of an envelope take the spellings of
  the spec (\<open>id\<close>, \<open>type\<close>, \<open>message\<close>, \<open>subtype\<close>, \<open>module\<close>, \<open>data\<close>,
  \<open>modules\<close>, ...); each \<open>TYPE_\<close> and \<open>SUBTYPE_\<close> constant stands for its own name
  without the prefix. The dispatcher relies only on the constants being pairwise
  distinct.
\<close>

definition EVENT_BASE :: string where "EVENT_BASE = ''base''"
definition EVENT_DATA :: string where "EVENT_DATA = ''data''"
definition EVENT_DIRECTORIES :: string where "EVENT_DIRECTORIES = ''directories''"
definition EVENT_EVENT :: string where "EVENT_EVENT = ''event''"
definition EVENT_FILE :: string where "EVENT_FILE = ''file''"
definition EVENT_FILES :: string where "EVENT_FILES = ''files''"
definition EVENT_ID :: string where "EVENT_ID = ''id''"
definition EVENT_MESSAGE :: string where "EVENT_MESSAGE = ''message''"
definition EVENT_MODULE :: string where "EVENT_MODULE = ''module''"
definition EVENT_MODULES :: string where "EVENT_MODULES = ''modules''"
definition EVENT_PATH :: string where "EVENT_PATH = ''path''"
definition EVENT_SETTING :: string where "EVENT_SETTING = ''setting''"
definition EVENT_SUBTYPE :: string where "EVENT_SUBTYPE = ''subtype''"
definition EVENT_TYPE :: string where "EVENT_TYPE = ''type''"
definition EVENT_URL :: string where "EVENT_URL = ''url''"
definition EVENT_VALUE :: string where "EVENT_VALUE = ''value''"
definition EVENT_VERSIONS :: string where "EVENT_VERSIONS = ''versions''"
definition SETTING_AUTOSTART :: string where "SETTING_AUTOSTART = ''autostart''"

definition SUBTYPE_BAD_API_KEY :: string where "SUBTYPE_BAD_API_KEY = ''BAD_API_KEY''"
definition SUBTYPE_BAD_DIRECTORY :: string where "SUBTYPE_BAD_DIRECTORY = ''BAD_DIRECTORY''"
definition SUBTYPE_BAD_FILE :: string where "SUBTYPE_BAD_FILE = ''BAD_FILE''"
definition SUBTYPE_BAD_JSON :: string where "SUBTYPE_BAD_JSON = ''BAD_JSON''"
definition SUBTYPE_BAD_PATH :: string where "SUBTYPE_BAD_PATH = ''BAD_PATH''"
definition SUBTYPE_BAD_REQUEST :: string where "SUBTYPE_BAD_REQUEST = ''BAD_REQUEST''"
definition SUBTYPE_INVALID_ACTION :: string where "SUBTYPE_INVALID_ACTION = ''INVALID_ACTION''"
definition SUBTYPE_LISTENER_ALREADY_REGISTERED :: string where
  "SUBTYPE_LISTENER_ALREADY_REGISTERED = ''LISTENER_ALREADY_REGISTERED''"
definition SUBTYPE_LISTENER_NOT_REGISTERED :: string where
  "SUBTYPE_LISTENER_NOT_REGISTERED = ''LISTENER_NOT_REGISTERED''"
definition SUBTYPE_MISSING_ACTION :: string where "SUBTYPE_MISSING_ACTION = ''MISSING_ACTION''"
definition SUBTYPE_MISSING_KEY :: string where "SUBTYPE_MISSING_KEY = ''MISSING_KEY''"
definition SUBTYPE_MISSING_MODULES :: string where "SUBTYPE_MISSING_MODULES = ''MISSING_MODULES''"
definition SUBTYPE_MISSING_PATH_URL :: string where
  "SUBTYPE_MISSING_PATH_URL = ''MISSING_PATH_URL''"
definition SUBTYPE_MISSING_TEXT :: string where "SUBTYPE_MISSING_TEXT = ''MISSING_TEXT''"
definition SUBTYPE_MISSING_TITLE :: string where "SUBTYPE_MISSING_TITLE = ''MISSING_TITLE''"
definition SUBTYPE_MISSING_VALUE :: string where "SUBTYPE_MISSING_VALUE = ''MISSING_VALUE''"
definition SUBTYPE_UNKNOWN_EVENT :: string where "SUBTYPE_UNKNOWN_EVENT = ''UNKNOWN_EVENT''"

definition TYPE_APPLICATION_UPDATE :: string where
  "TYPE_APPLICATION_UPDATE = ''APPLICATION_UPDATE''"
definition TYPE_APPLICATION_UPDATING :: string where
  "TYPE_APPLICATION_UPDATING = ''APPLICATION_UPDATING''"
definition TYPE_DATA_GET :: string where "TYPE_DATA_GET = ''DATA_GET''"
definition TYPE_DATA_LISTENER_REGISTERED :: string where
  "TYPE_DATA_LISTENER_REGISTERED = ''DATA_LISTENER_REGISTERED''"
definition TYPE_DATA_LISTENER_UNREGISTERED :: string where
  "TYPE_DATA_LISTENER_UNREGISTERED = ''DATA_LISTENER_UNREGISTERED''"
definition TYPE_DATA_UPDATE :: string where "TYPE_DATA_UPDATE = ''DATA_UPDATE''"
definition TYPE_DIRECTORIES :: string where "TYPE_DIRECTORIES = ''DIRECTORIES''"
definition TYPE_ERROR :: string where "TYPE_ERROR = ''ERROR''"
definition TYPE_EXIT_APPLICATION :: string where "TYPE_EXIT_APPLICATION = ''EXIT_APPLICATION''"
definition TYPE_FILE :: string where "TYPE_FILE = ''FILE''"
definition TYPE_FILES :: string where "TYPE_FILES = ''FILES''"
definition TYPE_GET_DATA :: string where "TYPE_GET_DATA = ''GET_DATA''"
definition TYPE_GET_DIRECTORIES :: string where "TYPE_GET_DIRECTORIES = ''GET_DIRECTORIES''"
definition TYPE_GET_FILE :: string where "TYPE_GET_FILE = ''GET_FILE''"
definition TYPE_GET_FILES :: string where "TYPE_GET_FILES = ''GET_FILES''"
definition TYPE_GET_REMOTE_BRIDGES :: string where
  "TYPE_GET_REMOTE_BRIDGES = ''GET_REMOTE_BRIDGES''"
definition TYPE_GET_REMOTE_BRIDGES_RESULT :: string where
  "TYPE_GET_REMOTE_BRIDGES_RESULT = ''GET_REMOTE_BRIDGES_RESULT''"
definition TYPE_GET_SETTING :: string where "TYPE_GET_SETTING = ''GET_SETTING''"
definition TYPE_GET_SETTINGS :: string where "TYPE_GET_SETTINGS = ''GET_SETTINGS''"
definition TYPE_KEYBOARD_KEY_PRESSED :: string where
  "TYPE_KEYBOARD_KEY_PRESSED = ''KEYBOARD_KEY_PRESSED''"
definition TYPE_KEYBOARD_KEYPRESS :: string where
  "TYPE_KEYBOARD_KEYPRESS = ''KEYBOARD_KEYPRESS''"
definition TYPE_KEYBOARD_TEXT :: string where "TYPE_KEYBOARD_TEXT = ''KEYBOARD_TEXT''"
definition TYPE_KEYBOARD_TEXT_SENT :: string where
  "TYPE_KEYBOARD_TEXT_SENT = ''KEYBOARD_TEXT_SENT''"
definition TYPE_MEDIA_CONTROL :: string where "TYPE_MEDIA_CONTROL = ''MEDIA_CONTROL''"
definition TYPE_NOTIFICATION :: string where "TYPE_NOTIFICATION = ''NOTIFICATION''"
definition TYPE_NOTIFICATION_SENT :: string where
  "TYPE_NOTIFICATION_SENT = ''NOTIFICATION_SENT''"
definition TYPE_OPEN :: string where "TYPE_OPEN = ''OPEN''"
definition TYPE_OPENED :: string where "TYPE_OPENED = ''OPENED''"
definition TYPE_POWER_HIBERNATE :: string where "TYPE_POWER_HIBERNATE = ''POWER_HIBERNATE''"
definition TYPE_POWER_HIBERNATING :: string where
  "TYPE_POWER_HIBERNATING = ''POWER_HIBERNATING''"
definition TYPE_POWER_LOCK :: string where "TYPE_POWER_LOCK = ''POWER_LOCK''"
definition TYPE_POWER_LOCKING :: string where "TYPE_POWER_LOCKING = ''POWER_LOCKING''"
definition TYPE_POWER_LOGGINGOUT :: string where "TYPE_POWER_LOGGINGOUT = ''POWER_LOGGINGOUT''"
definition TYPE_POWER_LOGOUT :: string where "TYPE_POWER_LOGOUT = ''POWER_LOGOUT''"
definition TYPE_POWER_RESTART :: string where "TYPE_POWER_RESTART = ''POWER_RESTART''"
definition TYPE_POWER_RESTARTING :: string where "TYPE_POWER_RESTARTING = ''POWER_RESTARTING''"
definition TYPE_POWER_SHUTDOWN :: string where "TYPE_POWER_SHUTDOWN = ''POWER_SHUTDOWN''"
definition TYPE_POWER_SHUTTINGDOWN :: string where
  "TYPE_POWER_SHUTTINGDOWN = ''POWER_SHUTTINGDOWN''"
definition TYPE_POWER_SLEEP :: string where "TYPE_POWER_SLEEP = ''POWER_SLEEP''"
definition TYPE_POWER_SLEEPING :: string where "TYPE_POWER_SLEEPING = ''POWER_SLEEPING''"
definition TYPE_REGISTER_DATA_LISTENER :: string where
  "TYPE_REGISTER_DATA_LISTENER = ''REGISTER_DATA_LISTENER''"
definition TYPE_SETTING_RESULT :: string where "TYPE_SETTING_RESULT = ''SETTING_RESULT''"
definition TYPE_SETTING_UPDATED :: string where "TYPE_SETTING_UPDATED = ''SETTING_UPDATED''"
definition TYPE_SETTINGS_RESULT :: string where "TYPE_SETTINGS_RESULT = ''SETTINGS_RESULT''"
definition TYPE_UNREGISTER_DATA_LISTENER :: string where
  "TYPE_UNREGISTER_DATA_LISTENER = ''UNREGISTER_DATA_LISTENER''"
definition TYPE_UPDATE_REMOTE_BRIDGE :: string where
  "TYPE_UPDATE_REMOTE_BRIDGE = ''UPDATE_REMOTE_BRIDGE''"
definition TYPE_UPDATE_REMOTE_BRIDGE_RESULT :: string where
  "TYPE_UPDATE_REMOTE_BRIDGE_RESULT = ''UPDATE_REMOTE_BRIDGE_RESULT''"
definition TYPE_UPDATE_SETTING :: string where "TYPE_UPDATE_SETTING = ''UPDATE_SETTING''"

section \<open>The module names\<close>

text \<open>\<open>MODULES\<close> of \<open>modules/__init__.py\<close>.\<close>

definition MODULES :: "string list" where
  "MODULES =
    [''battery'', ''cpu'', ''disk'', ''display'', ''gpu'', ''media'', ''memory'',
     ''network'', ''processes'', ''sensors'', ''system'']"

section \<open>The Listener Registry\<close>

text \<open>
  The class \<open>Listeners\<close> of \<open>modules/listeners.py\<close> is imported by the session
  handler but is not among the sources; section 4.2 of the spec gives its contract.
  A registration maps the connection's id to the modules it subscribed to; the
  callback is the session's own \<open>_data_changed\<close>, so the id stands for it.
\<close>

type_synonym registry = "(string \<times> val) list"

text \<open>
  Modelled from the spec: \<open>Listeners.add_listener\<close> is missing. "If connection_id
  already holds a registration, returns true and performs no mutation. Otherwise
  stores the registration and returns false."
\<close>

definition add_listener :: "registry \<Rightarrow> string \<Rightarrow> val \<Rightarrow> registry \<times> bool" where
  "add_listener reg listener_id modules =
     (if map_of reg listener_id \<noteq> None then (reg, True)
      else (reg @ [(listener_id, modules)], False))"

text \<open>
  Modelled from the spec: \<open>Listeners.remove_listener\<close> is missing.
  "remove_listener(connection_id) -> existed: bool. Idempotent; safe to call on an
  already-unregistered or never-registered id."
\<close>

definition remove_listener :: "registry \<Rightarrow> string \<Rightarrow> registry \<times> bool" where
  "remove_listener reg listener_id =
     (filter (\<lambda>l. fst l \<noteq> listener_id) reg, map_of reg listener_id \<noteq> None)"

text \<open>Whether a subscription (the \<open>modules\<close> value of a registration) holds a module.\<close>

fun subscribed :: "val \<Rightarrow> string \<Rightarrow> bool" where
  "subscribed (VList ms) module = (VStr module \<in> set ms)"
| "subscribed v module = False"

text \<open>
  Modelled from the spec: the notification of \<open>Listeners\<close> is missing. "For every
  current registration whose subscribed set contains category, invoke its callback."
  The result lists the connections whose callback is invoked.
\<close>

definition notify_targets :: "registry \<Rightarrow> string \<Rightarrow> string list" where
  "notify_targets reg module = map fst (filter (\<lambda>l. subscribed (snd l) module) reg)"

section \<open>The session\<close>

type_synonym response = "(string \<times> val) list"

text \<open>
  The state one \<open>WebSocketHandler\<close> works on: its \<open>_active\<close> flag, the messages it has
  handed to \<open>websocket.send_json\<close> (oldest first), the external calls it has made
  (oldest first), and the shared Listener Registry.
\<close>

record session =
  active :: bool
  sent :: "response list"
  calls :: "call list"
  listeners :: registry

text \<open>\<open>_send_response\<close>: nothing is sent while the session is not active.\<close>

definition send_response :: "response \<Rightarrow> session \<Rightarrow> session" where
  "send_response response s =
     (if \<not> active s then s else s\<lparr>sent := sent s @ [response]\<rparr>)"

text \<open>\<open>_data_changed\<close>, the callback the session registers with the Listener Registry.\<close>

definition data_changed :: "string \<Rightarrow> val \<Rightarrow> session \<Rightarrow> session" where
  "data_changed module d s =
     (if module \<notin> set MODULES then s
      else send_response
             [(EVENT_TYPE, VStr TYPE_DATA_UPDATE),
              (EVENT_MESSAGE, VStr ''Data changed''),
              (EVENT_MODULE, VStr module),
              (EVENT_DATA, d)] s)"

section \<open>Python's built-ins on JSON values\<close>

text \<open>\<open>int(v)\<close>: a \<open>ValueError\<close> on a string that is no number, a \<open>TypeError\<close> otherwise.\<close>

fun py_int :: "env \<Rightarrow> val \<Rightarrow> exc + int" where
  "py_int e (VInt i) = Inr i"
| "py_int e (VBool b) = Inr (if b then 1 else 0)"
| "py_int e (VStr t) =
     (case int_of_str e t of
        Some i \<Rightarrow> Inr i
      | None \<Rightarrow> Inl (Exc ValueError ''invalid literal for int()''))"
| "py_int e v = Inl (Exc OtherException ''int() argument must be a string or a number'')"

text \<open>\<open>bool(v)\<close>: Python's truth value.\<close>

fun py_bool :: "val \<Rightarrow> bool" where
  "py_bool VNone = False"
| "py_bool (VBool b) = b"
| "py_bool (VInt i) = (i \<noteq> 0)"
| "py_bool (VStr t) = (t \<noteq> [])"
| "py_bool (VList xs) = (xs \<noteq> [])"
| "py_bool (VObj kvs) = (kvs \<noteq> [])"

text \<open>\<open>len(v)\<close>: a \<open>TypeError\<close> on a value that has no length.\<close>

fun py_len :: "val \<Rightarrow> exc + nat" where
  "py_len (VStr t) = Inr (length t)"
| "py_len (VList xs) = Inr (length xs)"
| "py_len (VObj kvs) = Inr (length kvs)"
| "py_len v = Inl (Exc OtherException ''object has no len()'')"

text \<open>
  \<open>for module in v\<close>: the elements of a list, the characters of a string, the keys of
  a dict. The loops of the dispatcher run only after \<open>len(v)\<close> has returned.
\<close>

fun py_iter :: "val \<Rightarrow> val list" where
  "py_iter (VList xs) = xs"
| "py_iter (VStr t) = map (\<lambda>c. VStr [c]) t"
| "py_iter (VObj kvs) = map (\<lambda>kv. VStr (fst kv)) kvs"
| "py_iter v = []"

section \<open>Actions: state passing with exceptions\<close>

text \<open>
  A step of the handler takes the session and returns the session after it, with
  either the exception it raised or its result. An exception does not undo what was
  done before it.
\<close>

type_synonym 'a action = "session \<Rightarrow> session \<times> (exc + 'a)"

definition ret :: "'a \<Rightarrow> 'a action" where
  "ret x s = (s, Inr x)"

definition bind :: "'a action \<Rightarrow> ('a \<Rightarrow> 'b action) \<Rightarrow> 'b action" where
  "bind m f s =
     (case m s of
        (s', Inl e) \<Rightarrow> (s', Inl e)
      | (s', Inr x) \<Rightarrow> f x s')"

definition lift :: "exc + 'a \<Rightarrow> 'a action" where
  "lift r s = (s, r)"

text \<open>\<open>await self._send_response(response)\<close> as a step.\<close>

definition send :: "response \<Rightarrow> unit action" where
  "send response s = (send_response response s, Inr ())"

text \<open>
  A call of an external collaborator: it is recorded, and it raises or returns as the
  environment says. The arguments recorded are the values that come from the request;
  the handler's own objects (\<open>self._settings\<close>, \<open>self._database\<close>, a model instance)
  are left out.
\<close>

definition ext :: "env \<Rightarrow> string \<Rightarrow> val list \<Rightarrow> val action" where
  "ext e f args s =
     (s\<lparr>calls := calls s @ [Call f args]\<rparr>,
      case raises e (Call f args) of
        Some x \<Rightarrow> Inl x
      | None \<Rightarrow> Inr (returns e (Call f args)))"

text \<open>
  A field of a model built from the dict: the value under the field's name, \<open>None\<close>
  when the key is absent.
\<close>

definition field :: "data \<Rightarrow> string \<Rightarrow> val" where
  "field d k = (case d k of None \<Rightarrow> VNone | Some v \<Rightarrow> v)"

text \<open>The request envelope, \<open>Request(**data)\<close>.\<close>

record request =
  request_id :: val
  event :: string
  api_key :: string

text \<open>
  Modelled from the spec: \<open>Request\<close> is a model of \<open>systembridgemodels\<close>. Its
  constructor raises \<open>ValueError\<close> when the environment's validator rejects the dict,
  and when \<open>event\<close> or \<open>api_key\<close> is not a string (the top-level required fields).
\<close>

definition Request :: "env \<Rightarrow> data \<Rightarrow> exc + request" where
  "Request e d =
     (case invalid e ''Request'' d of
        Some m \<Rightarrow> Inl (Exc ValueError m)
      | None \<Rightarrow>
          (case (d ''event'', d ''api_key'') of
             (Some (VStr ev), Some (VStr k)) \<Rightarrow>
               Inr \<lparr>request_id = field d ''id'', event = ev, api_key = k\<rparr>
           | _ \<Rightarrow> Inl (Exc ValueError ''field required'')))"

text \<open>The error response every branch builds: id, type, subtype, message.\<close>

definition error_response :: "val \<Rightarrow> string \<Rightarrow> string \<Rightarrow> response" where
  "error_response rid subtype message =
     [(EVENT_ID, rid),
      (EVENT_TYPE, VStr TYPE_ERROR),
      (EVENT_SUBTYPE, VStr subtype),
      (EVENT_MESSAGE, VStr message)]"

text \<open>
  The guard that opens most branches: \<open>try: model = M(**data)\<close>, and on \<open>ValueError\<close>
  a \<open>bad_request\<close> response and \<open>return\<close>; otherwise the rest of the branch.
\<close>

definition with_model :: "env \<Rightarrow> string \<Rightarrow> data \<Rightarrow> request \<Rightarrow> unit action \<Rightarrow> unit action" where
  "with_model e name d req rest =
     (case invalid e name d of
        Some m \<Rightarrow>
          send (error_response (request_id req) SUBTYPE_BAD_REQUEST (''Invalid request: '' @ m))
      | None \<Rightarrow> rest)"

text \<open>A call whose result is not used.\<close>

definition do_call :: "env \<Rightarrow> string \<Rightarrow> val list \<Rightarrow> unit action" where
  "do_call e f args = bind (ext e f args) (\<lambda>r. ret ())"

text \<open>\<open>except ValueError\<close> also catches the subclass \<open>JSONDecodeError\<close>.\<close>

definition is_ValueError :: "exc \<Rightarrow> bool" where
  "is_ValueError x = (exc_cls x = ValueError \<or> exc_cls x = JSONDecodeError)"

section \<open>The dispatcher, branch by branch\<close>

text \<open>
  \<open>_handle_event\<close> is one chain of \<open>if\<close>/\<open>elif\<close> on \<open>request.event\<close>; each branch
  is a definition here, in the order of the source.
\<close>

definition handle_application_update :: "env \<Rightarrow> data \<Rightarrow> request \<Rightarrow> unit action" where
  "handle_application_update e d req =
     with_model e ''UpdateModel'' d req
       (bind (ext e ''Update().update'' [field d ''version'', VBool False]) (\<lambda>versions.
          send [(EVENT_ID, request_id req),
                (EVENT_TYPE, VStr TYPE_APPLICATION_UPDATING),
                (EVENT_MESSAGE, VStr ''Updating application''),
                (EVENT_VERSIONS, versions)]))"

definition handle_exit_application :: "env \<Rightarrow> unit action" where
  "handle_exit_application e = do_call e ''callback_exit_application'' []"

definition handle_keyboard_keypress :: "env \<Rightarrow> data \<Rightarrow> request \<Rightarrow> unit action" where
  "handle_keyboard_keypress e d req =
     with_model e ''KeyboardKey'' d req
       (if field d ''key'' = VNone then
          send (error_response (request_id req) SUBTYPE_MISSING_KEY ''No key provided'')
        else (\<lambda>s.
          case ext e ''keyboard_keypress'' [field d ''key''] s of
            (s', Inl x) \<Rightarrow>
              if is_ValueError x then
                send (error_response (request_id req) SUBTYPE_MISSING_KEY ''Invalid key'') s'
              else (s', Inl x)
          | (s', Inr r) \<Rightarrow>
              send [(EVENT_ID, request_id req),
                    (EVENT_TYPE, VStr TYPE_KEYBOARD_KEY_PRESSED),
                    (EVENT_MESSAGE, VStr ''Key pressed''),
                    (''key'', field d ''key'')] s'))"

definition handle_keyboard_text :: "env \<Rightarrow> data \<Rightarrow> request \<Rightarrow> unit action" where
  "handle_keyboard_text e d req =
     with_model e ''KeyboardText'' d req
       (if field d ''text'' = VNone then
          send (error_response (request_id req) SUBTYPE_MISSING_TEXT ''No text provided'')
        else
          bind (do_call e ''keyboard_text'' [field d ''text'']) (\<lambda>u.
            send [(EVENT_ID, request_id req),
                  (EVENT_TYPE, VStr TYPE_KEYBOARD_TEXT_SENT),
                  (EVENT_MESSAGE, VStr ''Key pressed''),
                  (''text'', field d ''text'')]))"

text \<open>
  Modelled from the spec: \<open>MediaAction\<close> is the enumeration \<open>Action\<close> of
  \<open>systembridgemodels.media_control\<close>. Its members are the thirteen the branch
  compares with; \<open>model.action\<close> holds the name of the member, and a value that names
  no member is not in the enumeration.
\<close>

definition MediaAction :: "string list" where
  "MediaAction =
    [''play'', ''pause'', ''stop'', ''previous'', ''next'', ''seek'', ''rewind'',
     ''fastforward'', ''shuffle'', ''repeat'', ''mute'', ''volumedown'', ''volumeup'']"

text \<open>The chain of comparisons on \<open>model.action\<close>; no response follows the call.\<close>

definition media_action :: "env \<Rightarrow> data \<Rightarrow> request \<Rightarrow> string \<Rightarrow> unit action" where
  "media_action e d req a =
     (let no_value =
            send (error_response (request_id req) SUBTYPE_MISSING_VALUE ''No value provided'')
      in
      if a = ''play'' then do_call e ''control_play'' []
      else if a = ''pause'' then do_call e ''control_pause'' []
      else if a = ''stop'' then do_call e ''control_stop'' []
      else if a = ''previous'' then do_call e ''control_previous'' []
      else if a = ''next'' then do_call e ''control_next'' []
      else if a = ''seek'' then
        (if field d ''value'' = VNone then no_value
         else bind (lift (py_int e (field d ''value''))) (\<lambda>i.
                do_call e ''control_seek'' [VInt i]))
      else if a = ''rewind'' then do_call e ''control_rewind'' []
      else if a = ''fastforward'' then do_call e ''control_fastforward'' []
      else if a = ''shuffle'' then
        (if field d ''value'' = VNone then no_value
         else do_call e ''control_shuffle'' [VBool (py_bool (field d ''value''))])
      else if a = ''repeat'' then
        (if field d ''value'' = VNone then no_value
         else bind (lift (py_int e (field d ''value''))) (\<lambda>i.
                do_call e ''control_repeat'' [VInt i]))
      else if a = ''mute'' then do_call e ''control_mute'' []
      else if a = ''volumedown'' then do_call e ''control_volume_down'' []
      else if a = ''volumeup'' then do_call e ''control_volume_up'' []
      else ret ())"

definition handle_media_control :: "env \<Rightarrow> data \<Rightarrow> request \<Rightarrow> unit action" where
  "handle_media_control e d req =
     with_model e ''MediaControl'' d req
       (case field d ''action'' of
          VNone \<Rightarrow>
            send (error_response (request_id req) SUBTYPE_MISSING_ACTION ''No action provided'')
        | VStr a \<Rightarrow>
            if a \<notin> set MediaAction then
              send (error_response (request_id req) SUBTYPE_INVALID_ACTION
                      ''Invalid action provided'')
            else media_action e d req a
        | v \<Rightarrow>
            send (error_response (request_id req) SUBTYPE_INVALID_ACTION
                    ''Invalid action provided''))"

definition handle_notification :: "env \<Rightarrow> data \<Rightarrow> request \<Rightarrow> unit action" where
  "handle_notification e d req =
     with_model e ''Notification'' d req
       (if field d ''title'' = VNone then
          send (error_response (request_id req) SUBTYPE_MISSING_TITLE ''No title provided'')
        else
          bind (ext e ''model.json'' []) (\<lambda>j.
          bind (do_call e ''callback_open_gui'' [VStr ''notification'', j]) (\<lambda>u.
            send [(EVENT_ID, request_id req),
                  (EVENT_TYPE, VStr TYPE_NOTIFICATION_SENT),
                  (EVENT_MESSAGE, VStr ''Notification sent'')])))"

definition handle_open :: "env \<Rightarrow> data \<Rightarrow> request \<Rightarrow> unit action" where
  "handle_open e d req =
     (if d ''path'' \<noteq> None then
        with_model e ''OpenPath'' d req
          (bind (do_call e ''open_path'' [field d ''path'']) (\<lambda>u.
             send [(EVENT_ID, request_id req),
                   (EVENT_TYPE, VStr TYPE_OPENED),
                   (EVENT_MESSAGE, VStr ''Path opened''),
                   (EVENT_PATH, field d ''path'')]))
      else if d ''url'' \<noteq> None then
        with_model e ''OpenUrl'' d req
          (bind (do_call e ''open_url'' [field d ''url'']) (\<lambda>u.
             send [(EVENT_ID, request_id req),
                   (EVENT_TYPE, VStr TYPE_OPENED),
                   (EVENT_MESSAGE, VStr ''URL opened''),
                   (EVENT_URL, field d ''url'')]))
      else
        send (error_response (request_id req) SUBTYPE_MISSING_PATH_URL
                ''No path or url provided''))"

text \<open>
  The two calls into the Listener Registry. Each is recorded among the calls and
  applied to the registry.
\<close>

definition call_add_listener :: "string \<Rightarrow> val \<Rightarrow> bool action" where
  "call_add_listener listener_id modules s =
     (case add_listener (listeners s) listener_id modules of
        (reg, already) \<Rightarrow>
          (s\<lparr>calls := calls s @ [Call ''listeners.add_listener'' [VStr listener_id, modules]],
             listeners := reg\<rparr>,
           Inr already))"

definition call_remove_listener :: "string \<Rightarrow> bool action" where
  "call_remove_listener listener_id s =
     (case remove_listener (listeners s) listener_id of
        (reg, existed) \<Rightarrow>
          (s\<lparr>calls := calls s @ [Call ''listeners.remove_listener'' [VStr listener_id]],
             listeners := reg\<rparr>,
           Inr existed))"

text \<open>\<open>model.modules is None or len(model.modules) == 0\<close>, and the rest of the branch.\<close>

definition with_modules :: "data \<Rightarrow> request \<Rightarrow> unit action \<Rightarrow> unit action" where
  "with_modules d req rest =
     (let no_modules =
            send (error_response (request_id req) SUBTYPE_MISSING_MODULES ''No modules provided'')
      in
      if field d ''modules'' = VNone then no_modules
      else bind (lift (py_len (field d ''modules''))) (\<lambda>n.
             if n = 0 then no_modules else rest))"

definition handle_register_data_listener ::
  "env \<Rightarrow> string \<Rightarrow> data \<Rightarrow> request \<Rightarrow> unit action" where
  "handle_register_data_listener e listener_id d req =
     with_model e ''RegisterDataListener'' d req
       (with_modules d req
          (bind (call_add_listener listener_id (field d ''modules'')) (\<lambda>already.
             if already then
               send (error_response (request_id req) SUBTYPE_LISTENER_ALREADY_REGISTERED
                       ''Listener already registered with this connection''
                     @ [(EVENT_MODULES, field d ''modules'')])
             else
               send [(EVENT_ID, request_id req),
                     (EVENT_TYPE, VStr TYPE_DATA_LISTENER_REGISTERED),
                     (EVENT_MESSAGE, VStr ''Data listener registered''),
                     (EVENT_MODULES, field d ''modules'')])))"

definition handle_unregister_data_listener :: "string \<Rightarrow> request \<Rightarrow> unit action" where
  "handle_unregister_data_listener listener_id req =
     bind (call_remove_listener listener_id) (\<lambda>existed.
       if \<not> existed then
         send (error_response (request_id req) SUBTYPE_LISTENER_NOT_REGISTERED
                 ''Listener not registered with this connection'')
       else
         send [(EVENT_ID, request_id req),
               (EVENT_TYPE, VStr TYPE_DATA_LISTENER_UNREGISTERED),
               (EVENT_MESSAGE, VStr ''Data listener unregistered'')])"

text \<open>The loop of the \<open>get-data\<close> branch over the requested modules.\<close>

fun get_data_loop :: "env \<Rightarrow> val \<Rightarrow> val list \<Rightarrow> unit action" where
  "get_data_loop e rid [] s = (s, Inr ())"
| "get_data_loop e rid (module # rest) s =
     (case ext e ''database.get_data_dict'' [TABLE_MAP e module] s of
        (s', Inl x) \<Rightarrow> (s', Inl x)
      | (s', Inr dat) \<Rightarrow>
          get_data_loop e rid rest
            (if dat \<noteq> VNone then
               send_response
                 [(EVENT_ID, rid),
                  (EVENT_TYPE, VStr TYPE_DATA_UPDATE),
                  (EVENT_MESSAGE, VStr ''Data received''),
                  (EVENT_MODULE, module),
                  (EVENT_DATA, dat)] s'
             else s'))"

definition handle_get_data :: "env \<Rightarrow> data \<Rightarrow> request \<Rightarrow> unit action" where
  "handle_get_data e d req =
     with_model e ''GetData'' d req
       (with_modules d req
          (bind (send [(EVENT_ID, request_id req),
                       (EVENT_TYPE, VStr TYPE_DATA_GET),
                       (EVENT_MESSAGE, VStr ''Getting data''),
                       (EVENT_MODULES, field d ''modules'')]) (\<lambda>u.
             get_data_loop e (request_id req) (py_iter (field d ''modules'')))))"

definition handle_get_directories :: "env \<Rightarrow> request \<Rightarrow> unit action" where
  "handle_get_directories e req =
     bind (ext e ''get_directories'' []) (\<lambda>dirs.
       send [(EVENT_ID, request_id req),
             (EVENT_TYPE, VStr TYPE_DIRECTORIES),
             (EVENT_DIRECTORIES, dirs)])"

text \<open>
  \<open>for item in get_directories(...): if item["key"] == model.base: root_path =
  item["path"]; break\<close>. A subscript on an item that is no dict, or that lacks the key,
  raises.
\<close>

fun find_root_path :: "val \<Rightarrow> val list \<Rightarrow> exc + val" where
  "find_root_path base [] = Inr VNone"
| "find_root_path base (VObj kvs # items) =
     (case map_of kvs ''key'' of
        None \<Rightarrow> Inl (Exc OtherException ''key'')
      | Some k \<Rightarrow>
          if k = base then
            (case map_of kvs ''path'' of
               None \<Rightarrow> Inl (Exc OtherException ''path'')
             | Some p \<Rightarrow> Inr p)
          else find_root_path base items)"
| "find_root_path base (item # items) =
     Inl (Exc OtherException ''object is not subscriptable'')"

text \<open>
  The part that \<open>get-files\<close> and \<open>get-file\<close> share: find the root path of the base,
  check that it exists, and go on with it.
\<close>

definition with_root_path :: "env \<Rightarrow> data \<Rightarrow> request \<Rightarrow> (val \<Rightarrow> unit action) \<Rightarrow> unit action" where
  "with_root_path e d req rest =
     (let bad_base =
            send (error_response (request_id req) SUBTYPE_BAD_PATH ''Cannot find base path''
                  @ [(EVENT_BASE, field d ''base'')])
      in
      bind (ext e ''get_directories'' []) (\<lambda>dirs.
      bind (lift (find_root_path (field d ''base'') (py_iter dirs))) (\<lambda>root_path.
        if root_path = VNone then bad_base
        else bind (ext e ''os.path.exists'' [root_path]) (\<lambda>ex.
               if \<not> py_bool ex then bad_base else rest root_path))))"

text \<open>The check \<open>os.path.exists(path)\<close> that both branches make next.\<close>

definition with_existing_path :: "env \<Rightarrow> request \<Rightarrow> val \<Rightarrow> unit action \<Rightarrow> unit action" where
  "with_existing_path e req path rest =
     bind (ext e ''os.path.exists'' [path]) (\<lambda>ex.
       if \<not> py_bool ex then
         send (error_response (request_id req) SUBTYPE_BAD_PATH ''Cannot find path''
               @ [(EVENT_PATH, path)])
       else rest)"

definition handle_get_files :: "env \<Rightarrow> data \<Rightarrow> request \<Rightarrow> unit action" where
  "handle_get_files e d req =
     with_model e ''MediaGetFiles'' d req
       (with_root_path e d req (\<lambda>root_path.
          bind (if field d ''path'' \<noteq> VNone
                then ext e ''os.path.join'' [root_path, field d ''path'']
                else ret root_path) (\<lambda>path.
          with_existing_path e req path
            (bind (ext e ''os.path.isdir'' [path]) (\<lambda>isdir.
               if \<not> py_bool isdir then
                 send (error_response (request_id req) SUBTYPE_BAD_DIRECTORY
                         ''Path is not a directory''
                       @ [(EVENT_PATH, path)])
               else
                 bind (ext e ''get_files'' [field d ''base'', path]) (\<lambda>files.
                   send [(EVENT_ID, request_id req),
                         (EVENT_TYPE, VStr TYPE_FILES),
                         (EVENT_FILES, files),
                         (EVENT_PATH, path)]))))))"

definition handle_get_file :: "env \<Rightarrow> data \<Rightarrow> request \<Rightarrow> unit action" where
  "handle_get_file e d req =
     with_model e ''MediaGetFile'' d req
       (with_root_path e d req (\<lambda>root_path.
          bind (ext e ''os.path.join'' [root_path, field d ''path'']) (\<lambda>path.
          with_existing_path e req path
            (bind (ext e ''os.path.isfile'' [path]) (\<lambda>isfile.
               if \<not> py_bool isfile then
                 send (error_response (request_id req) SUBTYPE_BAD_FILE ''Path is not a file''
                       @ [(EVENT_PATH, path)])
               else
                 bind (ext e ''get_file'' [root_path, path]) (\<lambda>file.
                   send [(EVENT_ID, request_id req),
                         (EVENT_TYPE, VStr TYPE_FILE),
                         (EVENT_FILE, file),
                         (EVENT_PATH, path)]))))))"

definition handle_get_settings :: "env \<Rightarrow> request \<Rightarrow> unit action" where
  "handle_get_settings e req =
     bind (ext e ''settings.get_all'' []) (\<lambda>all.
       send [(EVENT_ID, request_id req),
             (EVENT_TYPE, VStr TYPE_SETTINGS_RESULT),
             (EVENT_MESSAGE, VStr ''Got settings''),
             (EVENT_DATA, all)])"

definition handle_get_setting :: "env \<Rightarrow> data \<Rightarrow> request \<Rightarrow> unit action" where
  "handle_get_setting e d req =
     with_model e ''GetSetting'' d req
       (bind (ext e ''settings.get'' [field d ''setting'']) (\<lambda>v.
          send [(EVENT_ID, request_id req),
                (EVENT_TYPE, VStr TYPE_SETTING_RESULT),
                (EVENT_MESSAGE, VStr ''Got setting''),
                (EVENT_SETTING, field d ''setting''),
                (EVENT_DATA, v)]))"

definition handle_get_remote_bridges :: "env \<Rightarrow> request \<Rightarrow> unit action" where
  "handle_get_remote_bridges e req =
     bind (ext e ''get_remote_bridges'' []) (\<lambda>bridges.
       send [(EVENT_ID, request_id req),
             (EVENT_TYPE, VStr TYPE_GET_REMOTE_BRIDGES_RESULT),
             (EVENT_MESSAGE, VStr ''Got remote bridges''),
             (EVENT_DATA, bridges)])"

definition handle_update_remote_bridge :: "env \<Rightarrow> data \<Rightarrow> request \<Rightarrow> unit action" where
  "handle_update_remote_bridge e d req =
     with_model e ''RemoteBridge'' d req
       (bind (ext e ''database.update_remote_bridge'' []) (\<lambda>model.
          send [(EVENT_ID, request_id req),
                (EVENT_TYPE, VStr TYPE_UPDATE_REMOTE_BRIDGE_RESULT),
                (EVENT_MESSAGE, VStr ''Data updated''),
                (EVENT_DATA, model)]))"

definition handle_update_setting :: "env \<Rightarrow> data \<Rightarrow> request \<Rightarrow> unit action" where
  "handle_update_setting e d req =
     with_model e ''UpdateSetting'' d req
       (bind (do_call e ''settings.set'' [field d ''setting'', field d ''value'']) (\<lambda>u.
        bind (send [(EVENT_ID, request_id req),
                    (EVENT_TYPE, VStr TYPE_SETTING_UPDATED),
                    (EVENT_MESSAGE, VStr ''Setting updated''),
                    (EVENT_SETTING, field d ''setting''),
                    (EVENT_VALUE, field d ''value'')]) (\<lambda>u.
          if field d ''setting'' \<noteq> VStr SETTING_AUTOSTART then ret ()
          else if field d ''value'' = VBool True then do_call e ''autostart_enable'' []
          else do_call e ''autostart_disable'' [])))"

text \<open>The six power branches: the response first, then the action.\<close>

definition handle_power :: "env \<Rightarrow> request \<Rightarrow> string \<Rightarrow> string \<Rightarrow> string \<Rightarrow> unit action" where
  "handle_power e req rtype message f =
     bind (send [(EVENT_ID, request_id req),
                 (EVENT_TYPE, VStr rtype),
                 (EVENT_MESSAGE, VStr message)]) (\<lambda>u.
       do_call e f [])"

definition handle_unknown :: "request \<Rightarrow> unit action" where
  "handle_unknown req =
     send (error_response (request_id req) SUBTYPE_UNKNOWN_EVENT ''Unknown event''
           @ [(EVENT_EVENT, VStr (event req))])"

section \<open>The dispatcher\<close>

text \<open>\<open>_handle_event(listener_id, data, request)\<close>.\<close>

definition handle_event :: "env \<Rightarrow> string \<Rightarrow> data \<Rightarrow> request \<Rightarrow> unit action" where
  "handle_event e listener_id d req =
     (if event req = TYPE_APPLICATION_UPDATE then handle_application_update e d req
      else if event req = TYPE_EXIT_APPLICATION then handle_exit_application e
      else if event req = TYPE_KEYBOARD_KEYPRESS then handle_keyboard_keypress e d req
      else if event req = TYPE_KEYBOARD_TEXT then handle_keyboard_text e d req
      else if event req = TYPE_MEDIA_CONTROL then handle_media_control e d req
      else if event req = TYPE_NOTIFICATION then handle_notification e d req
      else if event req = TYPE_OPEN then handle_open e d req
      else if event req = TYPE_REGISTER_DATA_LISTENER then
        handle_register_data_listener e listener_id d req
      else if event req = TYPE_UNREGISTER_DATA_LISTENER then
        handle_unregister_data_listener listener_id req
      else if event req = TYPE_GET_DATA then handle_get_data e d req
      else if event req = TYPE_GET_DIRECTORIES then handle_get_directories e req
      else if event req = TYPE_GET_FILES then handle_get_files e d req
      else if event req = TYPE_GET_FILE then handle_get_file e d req
      else if event req = TYPE_GET_SETTINGS then handle_get_settings e req
      else if event req = TYPE_GET_SETTING then handle_get_setting e d req
      else if event req = TYPE_GET_REMOTE_BRIDGES then handle_get_remote_bridges e req
      else if event req = TYPE_UPDATE_REMOTE_BRIDGE then handle_update_remote_bridge e d req
      else if event req = TYPE_UPDATE_SETTING then handle_update_setting e d req
      else if event req = TYPE_POWER_SLEEP then
        handle_power e req TYPE_POWER_SLEEPING ''Sleeping'' ''sleep''
      else if event req = TYPE_POWER_HIBERNATE then
        handle_power e req TYPE_POWER_HIBERNATING ''Hiibernating'' ''hibernate''
      else if event req = TYPE_POWER_RESTART then
        handle_power e req TYPE_POWER_RESTARTING ''Restarting'' ''restart''
      else if event req = TYPE_POWER_SHUTDOWN then
        handle_power e req TYPE_POWER_SHUTTINGDOWN ''Shutting down'' ''shutdown''
      else if event req = TYPE_POWER_LOCK then
        handle_power e req TYPE_POWER_LOCKING ''Locking'' ''lock''
      else if event req = TYPE_POWER_LOGOUT then
        handle_power e req TYPE_POWER_LOGGINGOUT ''Logging out'' ''logout''
      else handle_unknown req)"

section \<open>The receive loop\<close>

text \<open>
  What one \<open>await self._websocket.receive_json()\<close> gives: the decoded dict, or the
  exception it raises (\<open>JSONDecodeError\<close> on a payload that is no JSON,
  \<open>WebSocketDisconnect\<close> or \<open>ConnectionError\<close> when the peer is gone, anything else).
  A session's input is the list of what the peer sends before it disconnects: on the
  empty list \<open>receive_json\<close> raises \<open>WebSocketDisconnect\<close>.
\<close>

datatype recv = Received data | Raised exc

text \<open>
  \<open>_handler(listener_id)\<close>: the loop \<open>while self._active\<close>. The result is the session
  after the loop and the exception that left it, if any.
\<close>

fun handler_loop :: "env \<Rightarrow> string \<Rightarrow> recv list \<Rightarrow> session \<Rightarrow> session \<times> exc option" where
  "handler_loop e listener_id [] s =
     (if \<not> active s then (s, None) else (s, Some (Exc WebSocketDisconnect [])))"
| "handler_loop e listener_id (Raised x # rest) s =
     (if \<not> active s then (s, None)
      else if exc_cls x = JSONDecodeError then
        (send_response
           [(EVENT_TYPE, VStr TYPE_ERROR),
            (EVENT_SUBTYPE, VStr SUBTYPE_BAD_JSON),
            (EVENT_MESSAGE, VStr (''Invalid JSON: '' @ exc_str x))] s, None)
      else if exc_cls x = ValueError then
        (send_response
           [(EVENT_TYPE, VStr TYPE_ERROR),
            (EVENT_SUBTYPE, VStr SUBTYPE_BAD_REQUEST),
            (EVENT_MESSAGE, VStr (''Invalid request: '' @ exc_str x))] s, None)
      else (s, Some x))"
| "handler_loop e listener_id (Received d # rest) s =
     (if \<not> active s then (s, None)
      else
        case Request e d of
          Inl x \<Rightarrow>
            (send_response
               [(EVENT_TYPE, VStr TYPE_ERROR),
                (EVENT_SUBTYPE, VStr SUBTYPE_BAD_REQUEST),
                (EVENT_MESSAGE, VStr (''Invalid request: '' @ exc_str x))] s, None)
        | Inr req \<Rightarrow>
            if api_key req \<noteq> secret_api_key e then
              (send_response
                 (error_response (request_id req) SUBTYPE_BAD_API_KEY ''Invalid api-key'') s,
               None)
            else
              (case handle_event e listener_id d req s of
                 (s', Inr u) \<Rightarrow> handler_loop e listener_id rest s'
               | (s', Inl x) \<Rightarrow>
                   handler_loop e listener_id rest
                     (send_response
                        (error_response (request_id req) SUBTYPE_UNKNOWN_EVENT (exc_str x))
                        s')))"

text \<open>
  \<open>handler()\<close>: the loop under \<open>try\<close>, \<open>ConnectionError\<close> and \<open>WebSocketDisconnect\<close>
  caught, and \<open>self._listeners.remove_listener(listener_id)\<close> under \<open>finally\<close>. The
  result is the session after the handler and the exception that propagates out of
  it, if any. The id, \<open>str(uuid4())\<close> in the source, is a parameter.
\<close>

definition handler :: "env \<Rightarrow> string \<Rightarrow> recv list \<Rightarrow> session \<Rightarrow> session \<times> exc option" where
  "handler e listener_id input s =
     (case handler_loop e listener_id input s of
        (s', r) \<Rightarrow>
          (fst (call_remove_listener listener_id s'),
           case r of
             None \<Rightarrow> None
           | Some x \<Rightarrow>
               if exc_cls x = ConnectionError \<or> exc_cls x = WebSocketDisconnect then None
               else Some x))"

section \<open>The update scheduler\<close>





definition classes_frequent :: "string list" where
  "classes_frequent = [''cpu'', ''display'', ''gpu'', ''memory'', ''network'', ''processes'']"










section \<open>Vocabulary of the proofs\<close>

text \<open>
  \<open>sends k m\<close>: the step \<open>m\<close> leaves the \<open>_active\<close> flag alone and only appends to
  the messages sent; run on an active session, it has appended exactly \<open>k\<close> of them
  when it returns without raising.
\<close>

definition sends :: "nat \<Rightarrow> 'a action \<Rightarrow> bool" where
  "sends k m \<longleftrightarrow>
     (\<forall>s s' r. m s = (s', r) \<longrightarrow>
        active s' = active s \<and>
        (\<exists>rs. sent s' = sent s @ rs \<and> (active s \<longrightarrow> (\<forall>x. r = Inr x \<longrightarrow> length rs = k))))"

text \<open>
  The push of the \<open>get-data\<close> branch for one module, and whether the Store has data
  for the module.
\<close>

definition push :: "env \<Rightarrow> val \<Rightarrow> val \<Rightarrow> response" where
  "push e rid module =
     [(EVENT_ID, rid),
      (EVENT_TYPE, VStr TYPE_DATA_UPDATE),
      (EVENT_MESSAGE, VStr ''Data received''),
      (EVENT_MODULE, module),
      (EVENT_DATA, returns e (Call ''database.get_data_dict'' [TABLE_MAP e module]))]"

definition found :: "env \<Rightarrow> val \<Rightarrow> bool" where
  "found e module \<longleftrightarrow> returns e (Call ''database.get_data_dict'' [TABLE_MAP e module]) \<noteq> VNone"

text \<open>
  A \<open>media-control\<close> request as the spec's table asks for it: the model is accepted,
  the action is a member of the enumeration, and seek, shuffle and repeat carry a value.
\<close>

definition valid_media_control :: "env \<Rightarrow> data \<Rightarrow> bool" where
  "valid_media_control e d \<longleftrightarrow>
     invalid e ''MediaControl'' d = None \<and>
     (case field d ''action'' of
        VStr a \<Rightarrow>
          a \<in> set MediaAction \<and>
          (a \<in> set [''seek'', ''shuffle'', ''repeat''] \<longrightarrow> field d ''value'' \<noteq> VNone)
      | v \<Rightarrow> False)"

text \<open>The transport-control function that the branch calls for each action.\<close>

definition transport_controls :: "(string \<times> string) list" where
  "transport_controls =
    [(''play'', ''control_play''), (''pause'', ''control_pause''), (''stop'', ''control_stop''),
     (''previous'', ''control_previous''), (''next'', ''control_next''),
     (''seek'', ''control_seek''), (''rewind'', ''control_rewind''),
     (''fastforward'', ''control_fastforward''), (''shuffle'', ''control_shuffle''),
     (''repeat'', ''control_repeat''), (''mute'', ''control_mute''),
     (''volumedown'', ''control_volume_down''), (''volumeup'', ''control_volume_up'')]"




section \<open>Concrete inputs\<close>

text \<open>
  An environment in which every model is accepted, no call raises, and every call
  returns \<open>None\<close>; and a fresh, active session on an empty registry.
\<close>

definition quiet_env :: env where
  "quiet_env =
     \<lparr>secret_api_key = ''K'',
      invalid = (\<lambda>name d. None),
      raises = (\<lambda>c. None),
      returns = (\<lambda>c. VNone),
      TABLE_MAP = (\<lambda>m. m),
      int_of_str = (\<lambda>t. None)\<rparr>"

definition fresh :: session where
  "fresh = \<lparr>active = True, sent = [], calls = [], listeners = []\<rparr>"

text \<open>
  A request with the right key, and an environment whose Store has data for \<open>cpu\<close>
  only.
\<close>

definition request_of :: "string \<Rightarrow> request" where
  "request_of ev = \<lparr>request_id = VStr ''1'', event = ev, api_key = ''K''\<rparr>"

definition store_env :: env where
  "store_env =
     quiet_env\<lparr>returns := (\<lambda>c.
       if c = Call ''database.get_data_dict'' [VStr ''cpu'']
       then VObj [(''usage'', VInt 7)] else VNone)\<rparr>"




section \<open>Counting the responses of a step\<close>

text \<open>The request events, for unfolding the dispatcher's chain of comparisons.\<close>

lemmas request_type_defs =
  TYPE_APPLICATION_UPDATE_def TYPE_EXIT_APPLICATION_def TYPE_KEYBOARD_KEYPRESS_def
  TYPE_KEYBOARD_TEXT_def TYPE_MEDIA_CONTROL_def TYPE_NOTIFICATION_def TYPE_OPEN_def
  TYPE_REGISTER_DATA_LISTENER_def TYPE_UNREGISTER_DATA_LISTENER_def TYPE_GET_DATA_def
  TYPE_GET_DIRECTORIES_def TYPE_GET_FILES_def TYPE_GET_FILE_def TYPE_GET_SETTINGS_def
  TYPE_GET_SETTING_def TYPE_GET_REMOTE_BRIDGES_def TYPE_UPDATE_REMOTE_BRIDGE_def
  TYPE_UPDATE_SETTING_def TYPE_POWER_SLEEP_def TYPE_POWER_HIBERNATE_def
  TYPE_POWER_RESTART_def TYPE_POWER_SHUTDOWN_def TYPE_POWER_LOCK_def TYPE_POWER_LOGOUT_def

lemma sends_ret: "sends 0 (ret x)"
  by (simp add: sends_def ret_def)

lemma sends_lift: "sends 0 (lift r)"
  by (simp add: sends_def lift_def)

lemma sends_send: "sends 1 (send r)"
  by (simp add: sends_def send_def send_response_def)

lemma sends_ext: "sends 0 (ext e f args)"
  by (auto simp: sends_def ext_def)

lemma sendsD:
  "sends k m \<Longrightarrow> m s = (s', r) \<Longrightarrow>
     active s' = active s \<and>
     (\<exists>rs. sent s' = sent s @ rs \<and> (active s \<longrightarrow> (\<forall>x. r = Inr x \<longrightarrow> length rs = k)))"
  by (simp add: sends_def)

lemma sends_bind:
  assumes "sends j m" and "\<And>x. sends k (f x)"
  shows "sends (j + k) (bind m f)"
  unfolding sends_def
proof (intro allI impI)
  fix s s' r
  assume b: "bind m f s = (s', r)"
  obtain s1 r1 where m: "m s = (s1, r1)" by (cases "m s")
  from sendsD [OF assms(1) m] obtain rs1 where
    a1: "active s1 = active s" and s1: "sent s1 = sent s @ rs1"
    and l1: "active s \<longrightarrow> (\<forall>x. r1 = Inr x \<longrightarrow> length rs1 = j)"
    by auto
  show "active s' = active s \<and>
        (\<exists>rs. sent s' = sent s @ rs \<and> (active s \<longrightarrow> (\<forall>x. r = Inr x \<longrightarrow> length rs = j + k)))"
  proof (cases r1)
    case (Inl x)
    with b m have "s' = s1" "r = Inl x" by (simp_all add: bind_def)
    with a1 s1 show ?thesis by simp
  next
    case (Inr y)
    with b m have f: "f y s1 = (s', r)" by (simp add: bind_def)
    from sendsD [OF assms(2) f] obtain rs2 where
      a2: "active s' = active s1" and s2: "sent s' = sent s1 @ rs2"
      and l2: "active s1 \<longrightarrow> (\<forall>x. r = Inr x \<longrightarrow> length rs2 = k)"
      by auto
    have "sent s' = sent s @ (rs1 @ rs2)" using s1 s2 by simp
    moreover have "active s \<longrightarrow> (\<forall>x. r = Inr x \<longrightarrow> length (rs1 @ rs2) = j + k)"
      using l1 l2 a1 Inr by simp
    ultimately show ?thesis using a1 a2 by blast
  qed
qed

lemma sends_bind0: "sends 0 m \<Longrightarrow> (\<And>x. sends k (f x)) \<Longrightarrow> sends k (bind m f)"
  using sends_bind [of 0 m k f] by simp

lemma sends_bind1: "sends 1 m \<Longrightarrow> (\<And>x. sends 0 (f x)) \<Longrightarrow> sends 1 (bind m f)"
  using sends_bind [of 1 m 0 f] by simp

lemma sends_do_call: "sends 0 (do_call e f args)"
  unfolding do_call_def by (intro sends_bind0 sends_ext sends_ret)

lemma sends_if: "sends k a \<Longrightarrow> sends k b \<Longrightarrow> sends k (if c then a else b)"
  by simp

lemma sends_with_model: "sends 1 rest \<Longrightarrow> sends 1 (with_model e name d req rest)"
  by (cases "invalid e name d") (simp_all only: with_model_def option.case sends_send)

lemma sends_with_modules: "sends 1 rest \<Longrightarrow> sends 1 (with_modules d req rest)"
  unfolding with_modules_def Let_def
  by (intro sends_if sends_send sends_bind0 sends_lift)

lemmas sends_intros = sends_with_model sends_with_modules sends_if sends_bind0 sends_send
  sends_ext sends_do_call sends_lift sends_ret

lemma sends_application_update: "sends 1 (handle_application_update e d req)"
  unfolding handle_application_update_def by (intro sends_intros)

lemma sends_keyboard_text: "sends 1 (handle_keyboard_text e d req)"
  unfolding handle_keyboard_text_def by (intro sends_intros)

lemma sends_notification: "sends 1 (handle_notification e d req)"
  unfolding handle_notification_def by (intro sends_intros)

lemma sends_open: "sends 1 (handle_open e d req)"
  unfolding handle_open_def by (intro sends_intros)


lemma sends_keyboard_keypress: "sends 1 (handle_keyboard_keypress e d req)"
proof -
  have "sends 1 (\<lambda>s. case ext e ''keyboard_keypress'' [field d ''key''] s of
            (s', Inl x) \<Rightarrow>
              if is_ValueError x then
                send (error_response (request_id req) SUBTYPE_MISSING_KEY ''Invalid key'') s'
              else (s', Inl x)
          | (s', Inr r) \<Rightarrow>
              send [(EVENT_ID, request_id req),
                    (EVENT_TYPE, VStr TYPE_KEYBOARD_KEY_PRESSED),
                    (EVENT_MESSAGE, VStr ''Key pressed''),
                    (''key'', field d ''key'')] s')"
    by (auto simp: sends_def ext_def send_def send_response_def split: option.splits)
  then show ?thesis
    unfolding handle_keyboard_keypress_def by (intro sends_intros)
qed

lemma sends_call_add_listener: "sends 0 (call_add_listener listener_id modules)"
  by (auto simp: sends_def call_add_listener_def split: prod.splits)

lemma sends_call_remove_listener: "sends 0 (call_remove_listener listener_id)"
  by (auto simp: sends_def call_remove_listener_def split: prod.splits)

lemma sends_append: "sends 1 (send (r @ extra))"
  by (rule sends_send)

lemma sends_register: "sends 1 (handle_register_data_listener e listener_id d req)"
  unfolding handle_register_data_listener_def
  by (intro sends_intros sends_call_add_listener)

lemma sends_unregister: "sends 1 (handle_unregister_data_listener listener_id req)"
  unfolding handle_unregister_data_listener_def
  by (intro sends_intros sends_call_remove_listener)

lemma sends_get_directories: "sends 1 (handle_get_directories e req)"
  unfolding handle_get_directories_def by (intro sends_intros)

lemma sends_with_root_path:
  "(\<And>p. sends 1 (rest p)) \<Longrightarrow> sends 1 (with_root_path e d req rest)"
  unfolding with_root_path_def Let_def by (intro sends_intros)

lemma sends_with_existing_path:
  "sends 1 rest \<Longrightarrow> sends 1 (with_existing_path e req path rest)"
  unfolding with_existing_path_def by (intro sends_intros)

lemma sends_if0: "sends 0 a \<Longrightarrow> sends 0 b \<Longrightarrow> sends 0 (if c then a else b)"
  by simp

lemma sends_get_files: "sends 1 (handle_get_files e d req)"
  unfolding handle_get_files_def
  by (intro sends_with_model sends_with_root_path sends_bind0 sends_with_existing_path
        sends_if sends_ext sends_ret sends_send)

lemma sends_get_file: "sends 1 (handle_get_file e d req)"
  unfolding handle_get_file_def
  by (intro sends_with_model sends_with_root_path sends_bind0 sends_with_existing_path
        sends_if sends_ext sends_ret sends_send)

lemma sends_get_settings: "sends 1 (handle_get_settings e req)"
  unfolding handle_get_settings_def by (intro sends_intros)

lemma sends_get_setting: "sends 1 (handle_get_setting e d req)"
  unfolding handle_get_setting_def by (intro sends_intros)

lemma sends_get_remote_bridges: "sends 1 (handle_get_remote_bridges e req)"
  unfolding handle_get_remote_bridges_def by (intro sends_intros)

lemma sends_update_remote_bridge: "sends 1 (handle_update_remote_bridge e d req)"
  unfolding handle_update_remote_bridge_def by (intro sends_intros)

lemma sends_update_setting: "sends 1 (handle_update_setting e d req)"
  unfolding handle_update_setting_def
  by (intro sends_with_model sends_bind0 sends_do_call sends_bind1 sends_send sends_if
        sends_ret)

lemma sends_power: "sends 1 (handle_power e req rtype message f)"
  unfolding handle_power_def by (intro sends_bind1 sends_send sends_do_call)

lemma sends_unknown: "sends 1 (handle_unknown req)"
  unfolding handle_unknown_def by (rule sends_send)

lemma sends_exit: "sends 0 (handle_exit_application e)"
  unfolding handle_exit_application_def by (rule sends_do_call)



lemma get_data_loop_sent:
  "get_data_loop e rid ms s = (s', Inr u) \<Longrightarrow> active s \<Longrightarrow>
     sent s' = sent s @ map (push e rid) (filter (found e) ms)"
proof (induction ms arbitrary: s)
  case Nil
  then show ?case by simp
next
  case (Cons m ms)
  show ?case
  proof (cases "raises e (Call ''database.get_data_dict'' [TABLE_MAP e m])")
    case (Some x)
    with Cons.prems show ?thesis by (simp add: ext_def)
  next
    case None
    let ?c = "Call ''database.get_data_dict'' [TABLE_MAP e m]"
    let ?s1 = "s\<lparr>calls := calls s @ [?c]\<rparr>"
    let ?s2 = "if returns e ?c \<noteq> VNone then send_response (push e rid m) ?s1 else ?s1"
    have eq: "get_data_loop e rid (m # ms) s = get_data_loop e rid ms ?s2"
      using None by (simp add: ext_def push_def)
    have step: "get_data_loop e rid ms ?s2 = (s', Inr u)"
      using Cons.prems(1) unfolding eq .
    have act: "active ?s2" using Cons.prems(2) by (simp add: send_response_def)
    from Cons.IH [OF step act] have "sent s' = sent ?s2 @ map (push e rid) (filter (found e) ms)" .
    moreover have "sent ?s2 = sent s @ (if found e m then [push e rid m] else [])"
      using Cons.prems(2) by (simp add: send_response_def found_def)
    ultimately show ?thesis by simp
  qed
qed


lemma sends_media_action_valid:
  assumes "a \<in> set MediaAction"
    and "a \<in> set [''seek'', ''shuffle'', ''repeat''] \<longrightarrow> field d ''value'' \<noteq> VNone"
  shows "sends 0 (media_action e d req a)"
proof -
  note r = sends_do_call sends_bind0 [OF sends_lift] 
  from assms(1) have "a = ''play'' \<or> a = ''pause'' \<or> a = ''stop'' \<or> a = ''previous''
    \<or> a = ''next'' \<or> a = ''seek'' \<or> a = ''rewind'' \<or> a = ''fastforward''
    \<or> a = ''shuffle'' \<or> a = ''repeat'' \<or> a = ''mute'' \<or> a = ''volumedown''
    \<or> a = ''volumeup''"
    by (simp add: MediaAction_def)
  then show ?thesis
    using assms(2) by (elim disjE) (simp_all add: media_action_def Let_def r)
qed

lemma sends_media_action_no_value:
  assumes "a \<in> set [''seek'', ''shuffle'', ''repeat'']" and "field d ''value'' = VNone"
  shows "sends 1 (media_action e d req a)"
proof -
  from assms(1) have "a = ''seek'' \<or> a = ''shuffle'' \<or> a = ''repeat''" by simp
  then show ?thesis
    using assms(2)
    by (elim disjE) (simp_all add: media_action_def Let_def sends_send del: One_nat_def)
qed

lemma sends_media_control_valid:
  assumes "valid_media_control e d"
  shows "sends 0 (handle_media_control e d req)"
proof -
  from assms obtain a where a: "field d ''action'' = VStr a" "a \<in> set MediaAction"
    "a \<in> set [''seek'', ''shuffle'', ''repeat''] \<longrightarrow> field d ''value'' \<noteq> VNone"
    and v: "invalid e ''MediaControl'' d = None"
    by (auto simp: valid_media_control_def split: val.splits)
  have "handle_media_control e d req = media_action e d req a"
    using a(1,2) v by (simp add: handle_media_control_def with_model_def)
  with sends_media_action_valid [OF a(2,3)] show ?thesis by simp
qed

lemma sends_media_control_invalid:
  assumes "\<not> valid_media_control e d"
  shows "sends 1 (handle_media_control e d req)"
proof (cases "invalid e ''MediaControl'' d")
  case (Some m)
  then show ?thesis
    by (simp only: handle_media_control_def with_model_def option.case sends_send)
next
  case None
  show ?thesis
  proof (cases "field d ''action''")
    case (VStr a)
    show ?thesis
    proof (cases "a \<in> set MediaAction")
      case True
      with assms None VStr have nv: "a \<in> set [''seek'', ''shuffle'', ''repeat'']"
        "field d ''value'' = VNone"
        by (auto simp: valid_media_control_def)
      have "handle_media_control e d req = media_action e d req a"
        using VStr True None by (simp add: handle_media_control_def with_model_def)
      with sends_media_action_no_value [OF nv] show ?thesis by simp
    next
      case False
      then show ?thesis using VStr None
        by (simp add: handle_media_control_def with_model_def sends_send del: One_nat_def)
    qed
  qed (simp_all add: handle_media_control_def with_model_def None sends_send del: One_nat_def)
qed



lemma map_of_error_response_type:
  "map_of (error_response rid subtype message @ extra) EVENT_TYPE = Some (VStr TYPE_ERROR)"
  by (simp add: error_response_def EVENT_ID_def EVENT_TYPE_def)


lemma handle_get_data_sent:
  assumes "active s" and "handle_get_data e d req s = (s', Inr u)"
  shows "(\<exists>r. sent s' = sent s @ [r] \<and> map_of r EVENT_TYPE = Some (VStr TYPE_ERROR))
    \<or> sent s' = sent s @
         [(EVENT_ID, request_id req),
          (EVENT_TYPE, VStr TYPE_DATA_GET),
          (EVENT_MESSAGE, VStr ''Getting data''),
          (EVENT_MODULES, field d ''modules'')]
         # map (push e (request_id req)) (filter (found e) (py_iter (field d ''modules'')))"
proof -
  let ?ack = "[(EVENT_ID, request_id req),
          (EVENT_TYPE, VStr TYPE_DATA_GET),
          (EVENT_MESSAGE, VStr ''Getting data''),
          (EVENT_MODULES, field d ''modules'')]"
  let ?ms = "py_iter (field d ''modules'')"
  have err: "\<exists>rid sub msg. send (error_response rid sub msg) s = (s', Inr u) \<Longrightarrow> ?thesis"
    using assms(1) map_of_error_response_type [of _ _ _ "[]"]
    by (auto simp: send_def send_response_def)
  have ok: "bind (send ?ack) (\<lambda>u. get_data_loop e (request_id req) ?ms) s = (s', Inr u)
      \<Longrightarrow> ?thesis"
  proof -
    assume "bind (send ?ack) (\<lambda>u. get_data_loop e (request_id req) ?ms) s = (s', Inr u)"
    then have "get_data_loop e (request_id req) ?ms (send_response ?ack s) = (s', Inr u)"
      by (simp add: bind_def send_def)
    from get_data_loop_sent [OF this] assms(1) show ?thesis
      by (simp add: send_response_def)
  qed
  show ?thesis
  proof (cases "invalid e ''GetData'' d")
    case (Some m)
    with assms(2) have "\<exists>rid sub msg. send (error_response rid sub msg) s = (s', Inr u)"
      by (auto simp: handle_get_data_def with_model_def)
    then show ?thesis by (rule err)
  next
    case None
    show ?thesis
    proof (cases "field d ''modules'' = VNone")
      case True
      with assms(2) None have "\<exists>rid sub msg. send (error_response rid sub msg) s = (s', Inr u)"
        by (auto simp: handle_get_data_def with_model_def with_modules_def Let_def)
      then show ?thesis by (rule err)
    next
      case False
      show ?thesis
      proof (cases "py_len (field d ''modules'')")
        case (Inl x)
        with assms(2) None False show ?thesis
          by (simp add: handle_get_data_def with_model_def with_modules_def Let_def
                bind_def lift_def)
      next
        case (Inr n)
        show ?thesis
        proof (cases "n = 0")
          case True
          with assms(2) None False Inr have
            "\<exists>rid sub msg. send (error_response rid sub msg) s = (s', Inr u)"
            by (auto simp: handle_get_data_def with_model_def with_modules_def Let_def
                  bind_def lift_def)
          then show ?thesis by (rule err)
        next
          case nz: False
          with assms(2) None False Inr have
            "bind (send ?ack) (\<lambda>u. get_data_loop e (request_id req) ?ms) s = (s', Inr u)"
            by (simp add: handle_get_data_def with_model_def with_modules_def Let_def
                  bind_def lift_def)
          then show ?thesis by (rule ok)
        qed
      qed
    qed
  qed
qed

lemmas branch_sends =
  sends_application_update sends_keyboard_keypress sends_keyboard_text sends_notification
  sends_open sends_register sends_unregister sends_get_directories sends_get_files
  sends_get_file sends_get_settings sends_get_setting sends_get_remote_bridges
  sends_update_remote_bridge sends_update_setting sends_power sends_unknown

lemma handle_event_one:
  assumes "event req \<noteq> TYPE_EXIT_APPLICATION" and "event req \<noteq> TYPE_MEDIA_CONTROL"
    and "event req \<noteq> TYPE_GET_DATA"
  shows "sends 1 (handle_event e listener_id d req)"
  unfolding handle_event_def using assms
  by (simp add: branch_sends del: One_nat_def)



lemma sends_exact:
  assumes "sends k m" and "active s" and "m s = (s', Inr u)"
  shows "\<exists>rs. sent s' = sent s @ rs \<and> length rs = k"
  using sendsD [OF assms(1,3)] assms(2) by auto

lemma sends_none:
  assumes "sends 0 m" and "active s" and "m s = (s', Inr u)"
  shows "sent s' = sent s"
  using sends_exact [OF assms] by simp

lemma sends_one:
  assumes "sends 1 m" and "active s" and "m s = (s', Inr u)"
  shows "\<exists>r. sent s' = sent s @ [r]"
proof -
  from sends_exact [OF assms] obtain rs where "sent s' = sent s @ rs" "length rs = 1" by auto
  then show ?thesis by (cases rs) auto
qed

lemma handle_event_exit:
  "event req = TYPE_EXIT_APPLICATION \<Longrightarrow>
     handle_event e listener_id d req = handle_exit_application e"
  by (simp add: handle_event_def request_type_defs)

lemma handle_event_media:
  "event req = TYPE_MEDIA_CONTROL \<Longrightarrow>
     handle_event e listener_id d req = handle_media_control e d req"
  by (simp add: handle_event_def request_type_defs)

lemma handle_event_get_data:
  "event req = TYPE_GET_DATA \<Longrightarrow>
     handle_event e listener_id d req = handle_get_data e d req"
  by (simp add: handle_event_def request_type_defs)

lemmas eval_defs =
  handle_event_def request_type_defs request_of_def quiet_env_def fresh_def
  bind_def ret_def lift_def send_def send_response_def ext_def do_call_def
  with_model_def with_modules_def field_def error_response_def

section \<open>How many responses a dispatch sends\<close>

text \<open>
  C1, as the code has it. On an active session, a dispatch that returns without
  raising sends exactly one response, with three exceptions: \<open>exit-application\<close>
  sends none; \<open>media-control\<close> sends none when the request is valid (an action of the
  enumeration, with a value for seek, shuffle and repeat) and one response (an error)
  otherwise; \<open>get-data\<close> sends either one error response, or the ack followed by one
  push for each requested module for which the Store returns data. Registering and
  unregistering a listener are no exceptions: they send one response, on success too.
\<close>

theorem dispatch_response_count:
  assumes "active s" and "handle_event e listener_id d req s = (s', Inr u)"
  shows "(event req = TYPE_EXIT_APPLICATION \<longrightarrow> sent s' = sent s)
    \<and> (event req = TYPE_MEDIA_CONTROL \<longrightarrow>
         (if valid_media_control e d then sent s' = sent s
          else \<exists>r. sent s' = sent s @ [r]))
    \<and> (event req = TYPE_GET_DATA \<longrightarrow>
         (\<exists>r. sent s' = sent s @ [r] \<and> map_of r EVENT_TYPE = Some (VStr TYPE_ERROR))
         \<or> sent s' = sent s @
              [(EVENT_ID, request_id req),
               (EVENT_TYPE, VStr TYPE_DATA_GET),
               (EVENT_MESSAGE, VStr ''Getting data''),
               (EVENT_MODULES, field d ''modules'')]
              # map (push e (request_id req)) (filter (found e) (py_iter (field d ''modules''))))
    \<and> (event req \<noteq> TYPE_EXIT_APPLICATION \<and> event req \<noteq> TYPE_MEDIA_CONTROL
         \<and> event req \<noteq> TYPE_GET_DATA \<longrightarrow>
         (\<exists>r. sent s' = sent s @ [r]))"
proof (intro conjI impI)
  assume "event req = TYPE_EXIT_APPLICATION"
  with assms(2) have "handle_exit_application e s = (s', Inr u)"
    by (simp add: handle_event_exit)
  from sends_none [OF sends_exit assms(1) this] show "sent s' = sent s" .
next
  assume "event req = TYPE_MEDIA_CONTROL"
  with assms(2) have m: "handle_media_control e d req s = (s', Inr u)"
    by (simp add: handle_event_media)
  show "if valid_media_control e d then sent s' = sent s else \<exists>r. sent s' = sent s @ [r]"
  proof (cases "valid_media_control e d")
    case True
    from sends_none [OF sends_media_control_valid [OF True] assms(1) m] True
    show ?thesis by simp
  next
    case False
    from sends_one [OF sends_media_control_invalid [OF False] assms(1) m] False
    show ?thesis by simp
  qed
next
  assume "event req = TYPE_GET_DATA"
  with assms(2) have "handle_get_data e d req s = (s', Inr u)"
    by (simp add: handle_event_get_data)
  from handle_get_data_sent [OF assms(1) this]
  show "(\<exists>r. sent s' = sent s @ [r] \<and> map_of r EVENT_TYPE = Some (VStr TYPE_ERROR))
         \<or> sent s' = sent s @
              [(EVENT_ID, request_id req),
               (EVENT_TYPE, VStr TYPE_DATA_GET),
               (EVENT_MESSAGE, VStr ''Getting data''),
               (EVENT_MODULES, field d ''modules'')]
              # map (push e (request_id req)) (filter (found e) (py_iter (field d ''modules'')))" .
next
  assume "event req \<noteq> TYPE_EXIT_APPLICATION \<and> event req \<noteq> TYPE_MEDIA_CONTROL
         \<and> event req \<noteq> TYPE_GET_DATA"
  then have "sends 1 (handle_event e listener_id d req)"
    by (intro handle_event_one) simp_all
  from sends_one [OF this assms] show "\<exists>r. sent s' = sent s @ [r]" .
qed

text \<open>
  The claim as stated fails: the \<open>exit-application\<close> request below gets no response
  at all, and the successful \<open>register-data-listener\<close> request gets one.
\<close>

theorem dispatch_response_count_counterexample:
  "handle_event quiet_env ''c'' Map.empty (request_of TYPE_EXIT_APPLICATION) fresh =
     (fresh\<lparr>calls := [Call ''callback_exit_application'' []]\<rparr>, Inr ())
   \<and> sent (fresh\<lparr>calls := [Call ''callback_exit_application'' []]\<rparr>) = []
   \<and> handle_event quiet_env ''c'' [''modules'' \<mapsto> VList [VStr ''cpu'']]
        (request_of TYPE_REGISTER_DATA_LISTENER) fresh =
     (\<lparr>active = True,
       sent = [ [(EVENT_ID, VStr ''1''),
                (EVENT_TYPE, VStr TYPE_DATA_LISTENER_REGISTERED),
                (EVENT_MESSAGE, VStr ''Data listener registered''),
                (EVENT_MODULES, VList [VStr ''cpu''])]],
       calls = [Call ''listeners.add_listener'' [VStr ''c'', VList [VStr ''cpu'']]],
       listeners = [(''c'', VList [VStr ''cpu''])]\<rparr>, Inr ())"
  by (simp add: eval_defs handle_exit_application_def handle_register_data_listener_def
        call_add_listener_def add_listener_def)

theorem dispatch_response_count_witness:
  "active fresh
   \<and> handle_event store_env ''c'' [''modules'' \<mapsto> VList [VStr ''cpu'', VStr ''disk'']]
        (request_of TYPE_GET_DATA) fresh =
     (\<lparr>active = True,
       sent = [ [(EVENT_ID, VStr ''1''),
                (EVENT_TYPE, VStr TYPE_DATA_GET),
                (EVENT_MESSAGE, VStr ''Getting data''),
                (EVENT_MODULES, VList [VStr ''cpu'', VStr ''disk''])],
               [(EVENT_ID, VStr ''1''),
                (EVENT_TYPE, VStr TYPE_DATA_UPDATE),
                (EVENT_MESSAGE, VStr ''Data received''),
                (EVENT_MODULE, VStr ''cpu''),
                (EVENT_DATA, VObj [(''usage'', VInt 7)])]],
       calls = [Call ''database.get_data_dict'' [VStr ''cpu''],
                Call ''database.get_data_dict'' [VStr ''disk'']],
       listeners = []\<rparr>, Inr ())
   \<and> filter (found store_env) [VStr ''cpu'', VStr ''disk''] = [VStr ''cpu'']"
proof -
  have a: "active fresh" by (simp add: fresh_def)
  have h: "handle_event store_env ''c'' [''modules'' \<mapsto> VList [VStr ''cpu'', VStr ''disk'']]
        (request_of TYPE_GET_DATA) fresh =
     (\<lparr>active = True,
       sent = [ [(EVENT_ID, VStr ''1''),
                (EVENT_TYPE, VStr TYPE_DATA_GET),
                (EVENT_MESSAGE, VStr ''Getting data''),
                (EVENT_MODULES, VList [VStr ''cpu'', VStr ''disk''])],
               [(EVENT_ID, VStr ''1''),
                (EVENT_TYPE, VStr TYPE_DATA_UPDATE),
                (EVENT_MESSAGE, VStr ''Data received''),
                (EVENT_MODULE, VStr ''cpu''),
                (EVENT_DATA, VObj [(''usage'', VInt 7)])]],
       calls = [Call ''database.get_data_dict'' [VStr ''cpu''],
                Call ''database.get_data_dict'' [VStr ''disk'']],
       listeners = []\<rparr>, Inr ())"
    by (simp add: eval_defs store_env_def handle_get_data_def)
  have f: "filter (found store_env) [VStr ''cpu'', VStr ''disk''] = [VStr ''cpu'']"
    by (simp add: found_def store_env_def quiet_env_def)
  from dispatch_response_count [OF a h] a h f show ?thesis by simp
qed


section \<open>Media control\<close>

lemma do_call_calls:
  "do_call e f args s = (s', Inr u) \<Longrightarrow> calls s' = calls s @ [Call f args]"
  by (auto simp: do_call_def bind_def ext_def ret_def split: option.splits)

lemma int_call_calls:
  "bind (lift (py_int e v)) (\<lambda>i. do_call e f [VInt i]) s = (s', Inr u) \<Longrightarrow>
     \<exists>args. calls s' = calls s @ [Call f args]"
  by (cases "py_int e v") (auto simp: bind_def lift_def dest: do_call_calls)

lemma media_action_calls:
  assumes "a \<in> set MediaAction"
    and "a \<in> set [''seek'', ''shuffle'', ''repeat''] \<longrightarrow> field d ''value'' \<noteq> VNone"
    and "media_action e d req a s = (s', Inr u)"
  shows "\<exists>f args. map_of transport_controls a = Some f \<and> calls s' = calls s @ [Call f args]"
proof -
  from assms(1) have "a = ''play'' \<or> a = ''pause'' \<or> a = ''stop'' \<or> a = ''previous''
    \<or> a = ''next'' \<or> a = ''seek'' \<or> a = ''rewind'' \<or> a = ''fastforward''
    \<or> a = ''shuffle'' \<or> a = ''repeat'' \<or> a = ''mute'' \<or> a = ''volumedown''
    \<or> a = ''volumeup''"
    by (simp add: MediaAction_def)
  then show ?thesis
    using assms(2,3)
    by (elim disjE)
       (simp_all add: media_action_def Let_def transport_controls_def do_call_calls
          int_call_calls)
qed

text \<open>
  C2, as the code has it. For a \<open>media-control\<close> request on an active session whose
  model is accepted, whose action is a member of the enumeration and which carries a
  value where seek, shuffle and repeat need one: a dispatch that returns without
  raising has made exactly one external call, of the transport-control function that
  matches the action, and has sent no response.
\<close>

theorem media_control_invokes_without_response:
  assumes "active s"
    and "event req = TYPE_MEDIA_CONTROL"
    and "invalid e ''MediaControl'' d = None"
    and "field d ''action'' = VStr a"
    and "a \<in> set MediaAction"
    and "a \<in> set [''seek'', ''shuffle'', ''repeat''] \<longrightarrow> field d ''value'' \<noteq> VNone"
    and "handle_event e listener_id d req s = (s', Inr u)"
  shows "sent s' = sent s
    \<and> (\<exists>f args. map_of transport_controls a = Some f \<and> calls s' = calls s @ [Call f args])"
proof -
  have v: "valid_media_control e d"
    using assms(3-6) by (simp add: valid_media_control_def)
  have m: "handle_media_control e d req s = (s', Inr u)"
    using assms(2,7) by (simp add: handle_event_media)
  have "handle_media_control e d req = media_action e d req a"
    using assms(3-5) by (simp add: handle_media_control_def with_model_def)
  with m have "media_action e d req a s = (s', Inr u)" by simp
  from media_action_calls [OF assms(5,6) this]
    sends_none [OF sends_media_control_valid [OF v] assms(1) m]
  show ?thesis by simp
qed

text \<open>
  The claim as stated fails: the request below, with the valid action \<open>play\<close>, calls
  \<open>control_play\<close> and gets no response.
\<close>

theorem media_control_acknowledged_counterexample:
  "handle_event quiet_env ''c'' [''action'' \<mapsto> VStr ''play'']
     (request_of TYPE_MEDIA_CONTROL) fresh =
     (fresh\<lparr>calls := [Call ''control_play'' []]\<rparr>, Inr ())
   \<and> sent (fresh\<lparr>calls := [Call ''control_play'' []]\<rparr>) = []"
  by (simp add: eval_defs handle_media_control_def media_action_def MediaAction_def Let_def)

theorem media_control_invokes_without_response_witness:
  "active fresh
   \<and> event (request_of TYPE_MEDIA_CONTROL) = TYPE_MEDIA_CONTROL
   \<and> invalid quiet_env ''MediaControl'' [''action'' \<mapsto> VStr ''seek'', ''value'' \<mapsto> VInt 30] = None
   \<and> ''seek'' \<in> set MediaAction
   \<and> handle_event quiet_env ''c'' [''action'' \<mapsto> VStr ''seek'', ''value'' \<mapsto> VInt 30]
        (request_of TYPE_MEDIA_CONTROL) fresh =
      (fresh\<lparr>calls := [Call ''control_seek'' [VInt 30]]\<rparr>, Inr ())
   \<and> map_of transport_controls ''seek'' = Some ''control_seek''"
proof -
  let ?d = "[''action'' \<mapsto> VStr ''seek'', ''value'' \<mapsto> VInt 30]"
  have a: "active fresh" by (simp add: fresh_def)
  have b: "event (request_of TYPE_MEDIA_CONTROL) = TYPE_MEDIA_CONTROL"
    by (simp add: request_of_def)
  have c: "invalid quiet_env ''MediaControl'' ?d = None" by (simp add: quiet_env_def)
  have f: "field ?d ''action'' = VStr ''seek''" by (simp add: field_def)
  have g: "''seek'' \<in> set MediaAction" by (simp add: MediaAction_def)
  have v: "''seek'' \<in> set [''seek'', ''shuffle'', ''repeat''] \<longrightarrow> field ?d ''value'' \<noteq> VNone"
    by (simp add: field_def)
  have h: "handle_event quiet_env ''c'' ?d (request_of TYPE_MEDIA_CONTROL) fresh =
      (fresh\<lparr>calls := [Call ''control_seek'' [VInt 30]]\<rparr>, Inr ())"
    by (simp add: eval_defs handle_media_control_def media_action_def MediaAction_def Let_def)
  have t: "map_of transport_controls ''seek'' = Some ''control_seek''"
    by (simp add: transport_controls_def)
  from media_control_invokes_without_response [OF a b c f g v h] a b c g h t
  show ?thesis by simp
qed


section \<open>The receive loop: authentication and the safety net\<close>

lemma Request_id: "Request e d = Inr req \<Longrightarrow> request_id req = field d ''id''"
  by (auto simp: Request_def split: option.splits val.splits)

text \<open>
  C3. When an active session receives a message that decodes into a valid request
  envelope whose \<open>api_key\<close> is not the configured secret, it sends exactly one error
  response with subtype \<open>bad_api_key\<close> that echoes the request's \<open>id\<close>, and the
  receive loop returns: the messages that follow are not read. Nothing else happens:
  no external call is made and the Listener Registry is as before.
\<close>

theorem bad_api_key_closes:
  assumes "active s" and "Request e d = Inr req" and "api_key req \<noteq> secret_api_key e"
  shows "handler_loop e listener_id (Received d # rest) s =
           (s\<lparr>sent := sent s @
                 [ [(EVENT_ID, field d ''id''),
                   (EVENT_TYPE, VStr TYPE_ERROR),
                   (EVENT_SUBTYPE, VStr SUBTYPE_BAD_API_KEY),
                   (EVENT_MESSAGE, VStr ''Invalid api-key'')]]\<rparr>, None)
    \<and> calls (fst (handler_loop e listener_id (Received d # rest) s)) = calls s
    \<and> listeners (fst (handler_loop e listener_id (Received d # rest) s)) = listeners s"
  using assms Request_id [OF assms(2)]
  by (simp add: send_response_def error_response_def)

theorem bad_api_key_closes_witness:
  "active fresh
   \<and> Request quiet_env [''id'' \<mapsto> VStr ''7'', ''event'' \<mapsto> VStr TYPE_EXIT_APPLICATION,
        ''api_key'' \<mapsto> VStr ''wrong'']
      = Inr \<lparr>request_id = VStr ''7'', event = TYPE_EXIT_APPLICATION, api_key = ''wrong''\<rparr>
   \<and> ''wrong'' \<noteq> secret_api_key quiet_env
   \<and> handler_loop quiet_env ''c''
        [Received [''id'' \<mapsto> VStr ''7'', ''event'' \<mapsto> VStr TYPE_EXIT_APPLICATION,
           ''api_key'' \<mapsto> VStr ''wrong''],
         Received [''id'' \<mapsto> VStr ''8'', ''event'' \<mapsto> VStr TYPE_EXIT_APPLICATION,
           ''api_key'' \<mapsto> VStr ''K'']] fresh =
      (fresh\<lparr>sent :=
          [ [(EVENT_ID, VStr ''7''),
            (EVENT_TYPE, VStr TYPE_ERROR),
            (EVENT_SUBTYPE, VStr SUBTYPE_BAD_API_KEY),
            (EVENT_MESSAGE, VStr ''Invalid api-key'')]]\<rparr>, None)"
proof -
  let ?d = "[''id'' \<mapsto> VStr ''7'', ''event'' \<mapsto> VStr TYPE_EXIT_APPLICATION,
        ''api_key'' \<mapsto> VStr ''wrong'']"
  let ?req = "\<lparr>request_id = VStr ''7'', event = TYPE_EXIT_APPLICATION, api_key = ''wrong''\<rparr>"
  have a: "active fresh" by (simp add: fresh_def)
  have r: "Request quiet_env ?d = Inr ?req"
    by (simp add: Request_def quiet_env_def field_def)
  have k: "api_key ?req \<noteq> secret_api_key quiet_env" by (simp add: quiet_env_def)
  from bad_api_key_closes [OF a r k] a r k show ?thesis
    by (simp add: fresh_def field_def)
qed




section \<open>Teardown\<close>

lemma map_of_removed: "map_of (filter (\<lambda>l. fst l \<noteq> k) reg) k = None"
  by (induction reg) auto

lemma removed_not_notified:
  "k \<notin> set (notify_targets (filter (\<lambda>l. fst l \<noteq> k) reg) module)"
  by (auto simp: notify_targets_def)

text \<open>
  C5. Whatever the session receives and however the receive loop ends (the loop
  condition fails, a decode failure, a bad api key, a connection error, a disconnect,
  or any other exception, which then propagates), the handler's last act is the call
  \<open>remove_listener(listener_id)\<close>: afterwards the Listener Registry holds no
  registration for the connection, and a notification for any module does not reach
  it.
\<close>

theorem handler_always_unregisters:
  "(\<exists>cs. calls (fst (handler e listener_id input s)) =
            cs @ [Call ''listeners.remove_listener'' [VStr listener_id]])
   \<and> map_of (listeners (fst (handler e listener_id input s))) listener_id = None
   \<and> listener_id \<notin> set (notify_targets (listeners (fst (handler e listener_id input s))) module)"
proof -
  obtain s1 r where l: "handler_loop e listener_id input s = (s1, r)"
    by (cases "handler_loop e listener_id input s")
  have f: "fst (handler e listener_id input s) =
      s1\<lparr>calls := calls s1 @ [Call ''listeners.remove_listener'' [VStr listener_id]],
         listeners := filter (\<lambda>l. fst l \<noteq> listener_id) (listeners s1)\<rparr>"
    by (simp add: handler_def l call_remove_listener_def remove_listener_def)
  show ?thesis
    unfolding f by (simp add: map_of_removed removed_not_notified)
qed

theorem handler_always_unregisters_witness:
  "handler quiet_env ''c''
     [Received [''id'' \<mapsto> VStr ''1'', ''event'' \<mapsto> VStr TYPE_REGISTER_DATA_LISTENER,
        ''api_key'' \<mapsto> VStr ''K'', ''modules'' \<mapsto> VList [VStr ''cpu'']],
      Raised (Exc OtherException ''boom'')] fresh =
   (\<lparr>active = True,
     sent = [ [(EVENT_ID, VStr ''1''),
              (EVENT_TYPE, VStr TYPE_DATA_LISTENER_REGISTERED),
              (EVENT_MESSAGE, VStr ''Data listener registered''),
              (EVENT_MODULES, VList [VStr ''cpu''])]],
     calls = [Call ''listeners.add_listener'' [VStr ''c'', VList [VStr ''cpu'']],
              Call ''listeners.remove_listener'' [VStr ''c'']],
     listeners = []\<rparr>, Some (Exc OtherException ''boom''))
   \<and> ''c'' \<notin> set (notify_targets [] ''cpu'')"
proof -
  let ?input = "[Received [''id'' \<mapsto> VStr ''1'', ''event'' \<mapsto> VStr TYPE_REGISTER_DATA_LISTENER,
        ''api_key'' \<mapsto> VStr ''K'', ''modules'' \<mapsto> VList [VStr ''cpu'']],
      Raised (Exc OtherException ''boom'')]"
  have h: "handler quiet_env ''c'' ?input fresh =
   (\<lparr>active = True,
     sent = [ [(EVENT_ID, VStr ''1''),
              (EVENT_TYPE, VStr TYPE_DATA_LISTENER_REGISTERED),
              (EVENT_MESSAGE, VStr ''Data listener registered''),
              (EVENT_MODULES, VList [VStr ''cpu''])]],
     calls = [Call ''listeners.add_listener'' [VStr ''c'', VList [VStr ''cpu'']],
              Call ''listeners.remove_listener'' [VStr ''c'']],
     listeners = []\<rparr>, Some (Exc OtherException ''boom''))"
    by (simp add: handler_def Request_def eval_defs handle_register_data_listener_def
          call_add_listener_def add_listener_def call_remove_listener_def remove_listener_def)
  from handler_always_unregisters [of quiet_env "''c''" ?input fresh "''cpu''"] h
  show ?thesis by simp
qed

section \<open>Registering without modules\<close>




section \<open>Opening a path or a URL\<close>

lemma handle_event_open:
  "event req = TYPE_OPEN \<Longrightarrow> handle_event e listener_id d req = handle_open e d req"
  by (simp add: handle_event_def request_type_defs)

lemmas open_defs =
  handle_open_def with_model_def bind_def do_call_def ext_def ret_def send_def
  send_response_def

text \<open>
  C10. For an \<open>open\<close> request that has a \<open>path\<close> field, whether or not it also has
  a \<open>url\<close> field, the path takes precedence: the only external call the dispatch can
  make is \<open>open_path\<close> on the path, never \<open>open_url\<close>; when the model is accepted and
  \<open>open_path\<close> returns, the active session sends the single response of type
  \<open>opened\<close> that echoes the path. The \<open>missing_path_url\<close> error is sent only when
  neither field is present, and then it is the single response.
\<close>

theorem open_path_takes_precedence:
  assumes "event req = TYPE_OPEN"
  shows "(d ''path'' \<noteq> None \<longrightarrow>
           calls (fst (handle_event e listener_id d req s)) = calls s
           \<or> calls (fst (handle_event e listener_id d req s)) =
               calls s @ [Call ''open_path'' [field d ''path'']])
    \<and> (d ''path'' \<noteq> None \<longrightarrow> active s \<longrightarrow> invalid e ''OpenPath'' d = None \<longrightarrow>
         raises e (Call ''open_path'' [field d ''path'']) = None \<longrightarrow>
         handle_event e listener_id d req s =
           (s\<lparr>calls := calls s @ [Call ''open_path'' [field d ''path'']],
              sent := sent s @
                [ [(EVENT_ID, request_id req),
                  (EVENT_TYPE, VStr TYPE_OPENED),
                  (EVENT_MESSAGE, VStr ''Path opened''),
                  (EVENT_PATH, field d ''path'')]]\<rparr>, Inr ()))
    \<and> (active s \<longrightarrow>
         (error_response (request_id req) SUBTYPE_MISSING_PATH_URL ''No path or url provided''
            \<in> set (sent (fst (handle_event e listener_id d req s))) - set (sent s)
          \<longrightarrow> d ''path'' = None \<and> d ''url'' = None)
         \<and> (d ''path'' = None \<and> d ''url'' = None \<longrightarrow>
              handle_event e listener_id d req s =
                (s\<lparr>sent := sent s @
                   [error_response (request_id req) SUBTYPE_MISSING_PATH_URL
                      ''No path or url provided'']\<rparr>, Inr ())))"
proof (intro conjI impI)
  assume "d ''path'' \<noteq> None"
  then show "calls (fst (handle_event e listener_id d req s)) = calls s
           \<or> calls (fst (handle_event e listener_id d req s)) =
               calls s @ [Call ''open_path'' [field d ''path'']]"
    unfolding handle_event_open [OF assms]
    by (cases "invalid e ''OpenPath'' d";
        cases "raises e (Call ''open_path'' [field d ''path''])")
       (simp_all add: open_defs)
next
  assume "d ''path'' \<noteq> None" "active s" "invalid e ''OpenPath'' d = None"
    "raises e (Call ''open_path'' [field d ''path'']) = None"
  then show "handle_event e listener_id d req s =
           (s\<lparr>calls := calls s @ [Call ''open_path'' [field d ''path'']],
              sent := sent s @
                [ [(EVENT_ID, request_id req),
                  (EVENT_TYPE, VStr TYPE_OPENED),
                  (EVENT_MESSAGE, VStr ''Path opened''),
                  (EVENT_PATH, field d ''path'')]]\<rparr>, Inr ())"
    unfolding handle_event_open [OF assms] by (simp add: open_defs)
next
  assume a: "active s"
    and m: "error_response (request_id req) SUBTYPE_MISSING_PATH_URL ''No path or url provided''
            \<in> set (sent (fst (handle_event e listener_id d req s))) - set (sent s)"
  have sub: "SUBTYPE_BAD_REQUEST \<noteq> SUBTYPE_MISSING_PATH_URL"
    by (simp add: SUBTYPE_BAD_REQUEST_def SUBTYPE_MISSING_PATH_URL_def)
  have ty: "TYPE_ERROR \<noteq> TYPE_OPENED" by (simp add: TYPE_ERROR_def TYPE_OPENED_def)
  show "d ''path'' = None"
  proof (rule ccontr)
    assume "d ''path'' \<noteq> None"
    with m a sub ty show False
      unfolding handle_event_open [OF assms]
      by (cases "invalid e ''OpenPath'' d";
          cases "raises e (Call ''open_path'' [field d ''path''])")
         (simp_all add: open_defs error_response_def)
  qed
  show "d ''url'' = None"
  proof (rule ccontr)
    assume "d ''url'' \<noteq> None"
    with m a sub ty \<open>d ''path'' = None\<close> show False
      unfolding handle_event_open [OF assms]
      by (cases "invalid e ''OpenUrl'' d";
          cases "raises e (Call ''open_url'' [field d ''url''])")
         (simp_all add: open_defs error_response_def)
  qed
next
  assume "active s" "d ''path'' = None \<and> d ''url'' = None"
  then show "handle_event e listener_id d req s =
                (s\<lparr>sent := sent s @
                   [error_response (request_id req) SUBTYPE_MISSING_PATH_URL
                      ''No path or url provided'']\<rparr>, Inr ())"
    unfolding handle_event_open [OF assms] by (simp add: open_defs)
qed

theorem open_path_takes_precedence_witness:
  "event (request_of TYPE_OPEN) = TYPE_OPEN
   \<and> handle_event quiet_env ''c''
        [''path'' \<mapsto> VStr ''/tmp'', ''url'' \<mapsto> VStr ''http://x''] (request_of TYPE_OPEN) fresh =
      (fresh\<lparr>calls := [Call ''open_path'' [VStr ''/tmp'']],
         sent := [ [(EVENT_ID, VStr ''1''),
                   (EVENT_TYPE, VStr TYPE_OPENED),
                   (EVENT_MESSAGE, VStr ''Path opened''),
                   (EVENT_PATH, VStr ''/tmp'')]]\<rparr>, Inr ())"
proof -
  let ?d = "[''path'' \<mapsto> VStr ''/tmp'', ''url'' \<mapsto> VStr ''http://x'']"
  have a: "event (request_of TYPE_OPEN) = TYPE_OPEN" by (simp add: request_of_def)
  have p: "?d ''path'' \<noteq> None" by simp
  have c: "active fresh" by (simp add: fresh_def)
  have v: "invalid quiet_env ''OpenPath'' ?d = None" by (simp add: quiet_env_def)
  have r: "raises quiet_env (Call ''open_path'' [field ?d ''path'']) = None"
    by (simp add: quiet_env_def)
  from open_path_takes_precedence [OF a, of ?d quiet_env "''c''" fresh] a p c v r
  show ?thesis by (simp add: field_def fresh_def request_of_def)
qed


section \<open>Data-change push\<close>

text \<open>
  C9. When the Listener Registry calls the session's data-changed callback with a
  module name and data: if the name is one of \<open>MODULES\<close>, the session (while it is
  active, that is, not silenced by \<open>set_active(False)\<close>) sends exactly one response,
  of type data-update, carrying that name and the data; if the name is not in
  \<open>MODULES\<close>, nothing is sent and nothing else changes.
\<close>

theorem data_changed_push:
  "(active s \<longrightarrow> module \<in> set MODULES \<longrightarrow>
      data_changed module d s =
        s\<lparr>sent := sent s @
              [ [(EVENT_TYPE, VStr TYPE_DATA_UPDATE),
                (EVENT_MESSAGE, VStr ''Data changed''),
                (EVENT_MODULE, VStr module),
                (EVENT_DATA, d)]]\<rparr>)
   \<and> (module \<notin> set MODULES \<longrightarrow> data_changed module d s = s)"
  by (simp add: data_changed_def send_response_def)

theorem data_changed_push_witness:
  "active fresh \<and> ''cpu'' \<in> set MODULES \<and> ''weather'' \<notin> set MODULES
   \<and> sent (data_changed ''cpu'' (VInt 7) fresh) =
       [ [(EVENT_TYPE, VStr TYPE_DATA_UPDATE),
         (EVENT_MESSAGE, VStr ''Data changed''),
         (EVENT_MODULE, VStr ''cpu''),
         (EVENT_DATA, VInt 7)]]
   \<and> data_changed ''weather'' (VInt 7) fresh = fresh"
  using data_changed_push [of fresh "''cpu''" "VInt 7"]
    data_changed_push [of fresh "''weather''" "VInt 7"]
  by (simp add: fresh_def MODULES_def)

section \<open>The frequent refresh\<close>














section \<open>A collector that raises\<close>









lemma sensors_not_frequent: "''sensors'' \<notin> set classes_frequent"
  by (simp add: classes_frequent_def)







end
